theory Spec2Isabelle
  imports Complex_Main "HOL-Library.Product_Lexorder"
begin

section \<open>Data model\<close>

text \<open>
  The repository holds two implementations of the balancer: the single-file script
  \<^verbatim>\<open>vm_balancer.py\<close> (classes \<^verbatim>\<open>VMManagerAPI\<close> and \<^verbatim>\<open>VMBalancer\<close>) and the package
  \<^verbatim>\<open>vm_balancer/core\<close> (classes \<^verbatim>\<open>NodeAnalyzer\<close>, \<^verbatim>\<open>ResourceEstimator\<close> and
  \<^verbatim>\<open>MigrationStrategy\<close>). Definitions taken from the package carry the class name as a
  prefix (\<open>NodeAnalyzer_\<close>, \<open>ResourceEstimator_\<close>, \<open>MigrationStrategy_\<close>); all others are
  taken from \<^verbatim>\<open>vm_balancer.py\<close>.

  Python integers are \<^typ>\<open>int\<close>. Python floats are idealised as \<^typ>\<open>real\<close>: every
  quotient and comparison below is exact. A \<^verbatim>\<open>datetime\<close> is an \<^typ>\<open>int\<close> counting
  microseconds, and a \<^verbatim>\<open>timedelta\<close> is a difference of two such values. Strings are
  lists of 8-bit characters; the character classes below are the ASCII ones.
\<close>

datatype py_error = ZeroDivisionError

record VMInfo =
  id_vm :: string
  name_vm :: string
  node_id :: string
  cpu_cores :: int
  memory_mb :: int
  state :: string
  can_migrate :: bool

record NodeInfo =
  id_node :: string
  name_node :: string
  cpu_total :: int
  cpu_used :: int
  memory_total_mb :: int
  memory_used_mb :: int
  vm_count :: int
  is_maintenance :: bool
  vm_creation_allowed :: bool
  vm_limit :: int
  qemu_version :: string

text \<open>The properties of \<^verbatim>\<open>NodeInfo\<close>. Both quotients are guarded by the source.\<close>

definition cpu_allocation_ratio :: "NodeInfo \<Rightarrow> real" where
  "cpu_allocation_ratio n =
     (if cpu_total n > 0 then real_of_int (cpu_used n) / real_of_int (cpu_total n) else 0)"

definition memory_usage_percent :: "NodeInfo \<Rightarrow> real" where
  "memory_usage_percent n =
     (if memory_total_mb n > 0
      then real_of_int (memory_used_mb n) / real_of_int (memory_total_mb n) * 100 else 0)"

definition can_accept_vms :: "NodeInfo \<Rightarrow> bool" where
  "can_accept_vms n =
     (let vm_limit_ok = (vm_limit n \<le> 0 \<or> vm_count n < vm_limit n)
      in \<not> is_maintenance n \<and> vm_creation_allowed n \<and> vm_limit_ok)"

text \<open>
  The attributes of \<^verbatim>\<open>VMBalancer\<close> that are fixed at construction. The migration history
  is the only attribute that changes and is part of the state further below.
\<close>

record config =
  cpu_overload_threshold :: real
  memory_overload_threshold :: real
  cpu_target_threshold :: real
  memory_target_threshold :: real
  dry_run :: bool
  excluded_source_nodes :: "string set"
  excluded_target_nodes :: "string set"
  max_migrations_per_cycle :: int
  migration_timeout :: int

text \<open>The defaults of \<^verbatim>\<open>VMBalancer.__init__\<close>.\<close>

definition default_config :: config where
  "default_config =
     \<lparr>cpu_overload_threshold = 7, memory_overload_threshold = 70,
      cpu_target_threshold = 6, memory_target_threshold = 80,
      dry_run = False, excluded_source_nodes = {}, excluded_target_nodes = {},
      max_migrations_per_cycle = 1, migration_timeout = 1800\<rparr>"

section \<open>Strings\<close>

definition is_digit :: "char \<Rightarrow> bool" where
  "is_digit c = (let n = (of_char c :: nat) in 48 \<le> n \<and> n \<le> 57)"

text \<open>The ASCII characters for which \<^verbatim>\<open>str.isspace\<close> holds.\<close>

definition is_space :: "char \<Rightarrow> bool" where
  "is_space c = (let n = (of_char c :: nat) in (9 \<le> n \<and> n \<le> 13) \<or> (28 \<le> n \<and> n \<le> 32))"

definition strip :: "string \<Rightarrow> string" where
  "strip s = rev (dropWhile is_space (rev (dropWhile is_space s)))"

definition lower_char :: "char \<Rightarrow> char" where
  "lower_char c = (let n = (of_char c :: nat) in if 65 \<le> n \<and> n \<le> 90 then char_of (n + 32) else c)"

definition lower :: "string \<Rightarrow> string" where
  "lower s = map lower_char s"

text \<open>The value of a string of decimal digits.\<close>

definition int_of_digits :: "string \<Rightarrow> int" where
  "int_of_digits ds = foldl (\<lambda>a c. 10 * a + (int (of_char c) - 48)) 0 ds"

text \<open>\<^verbatim>\<open>str.split(sep)\<close> for a separator of one character.\<close>

fun split_on :: "char \<Rightarrow> string \<Rightarrow> string list" where
  "split_on sep [] = [[]]"
| "split_on sep (c # cs) =
     (if c = sep then [] # split_on sep cs
      else (case split_on sep cs of p # ps \<Rightarrow> (c # p) # ps | [] \<Rightarrow> [[c]]))"

text \<open>
  \<^verbatim>\<open>int(s)\<close>: surrounding whitespace is dropped, one sign is allowed, and the rest must be
  decimal digits, with single underscores allowed between two digits. \<open>None\<close> stands for
  \<^verbatim>\<open>ValueError\<close>.
\<close>

fun digits_body :: "string \<Rightarrow> bool" where
  "digits_body [] = False"
| "digits_body [c] = is_digit c"
| "digits_body (c # d # cs) =
     (is_digit c \<and> (if d = CHR ''_'' then digits_body cs else digits_body (d # cs)))"

definition py_int :: "string \<Rightarrow> int option" where
  "py_int s =
     (let t = strip s;
          sgn_body = (case t of
                        [] \<Rightarrow> (1, [])
                      | c # cs \<Rightarrow> if c = CHR ''-'' then (- 1, cs)
                                 else if c = CHR ''+'' then (1, cs) else (1, t))
      in if digits_body (snd sgn_body)
         then Some (fst sgn_body * int_of_digits (filter is_digit (snd sgn_body)))
         else None)"

section \<open>VM migratability (\<^verbatim>\<open>VMManagerAPI.can_vm_migrate\<close>)\<close>

text \<open>
  The fields of a VM record of the remote inventory that \<^verbatim>\<open>can_vm_migrate\<close> reads. A field is
  \<open>None\<close> when the key is absent from the dictionary; a field that is present has the type
  the API gives it.
\<close>

record vm_data =
  vd_name :: "string option"
  vd_state :: "string option"
  vd_iso_mounted :: "bool option"
  vd_snapshot_count :: "int option"
  vd_balancer_mode :: "string option"

definition dict_get :: "'a option \<Rightarrow> 'a \<Rightarrow> 'a" where
  "dict_get field dflt = (case field of Some v \<Rightarrow> v | None \<Rightarrow> dflt)"

definition can_vm_migrate :: "vm_data \<Rightarrow> bool" where
  "can_vm_migrate d =
     (let st = lower (dict_get (vd_state d) [])
      in if st \<noteq> ''active'' then False
         else let has_iso = dict_get (vd_iso_mounted d) False;
                  has_snapshots = (dict_get (vd_snapshot_count d) 0 > 0);
                  balancer_disabled = (dict_get (vd_balancer_mode d) ''off'' = ''off'')
              in if has_iso then False
                 else if has_snapshots then False
                 else if balancer_disabled then False
                 else True)"

section \<open>QEMU version comparison\<close>

text \<open>Comparison \<^verbatim>\<open>a >= b\<close> of two Python tuples of integers.\<close>

fun tuple_ge :: "int list \<Rightarrow> int list \<Rightarrow> bool" where
  "tuple_ge [] [] = True"
| "tuple_ge [] (y # ys) = False"
| "tuple_ge (x # xs) [] = True"
| "tuple_ge (x # xs) (y # ys) = (if x = y then tuple_ge xs ys else x > y)"

subsection \<open>\<^verbatim>\<open>VMManagerAPI.compare_qemu_versions\<close>\<close>

text \<open>
  The repetition \<^verbatim>\<open>(?:\.\d+)*\<close> of the regular expression: each round takes a dot followed
  by at least one digit, and the digits are taken greedily.
\<close>

function dotted_groups :: "string \<Rightarrow> string list" where
  "dotted_groups [] = []"
| "dotted_groups (c # cs) =
     (if c = CHR ''.'' \<and> takeWhile is_digit cs \<noteq> []
      then takeWhile is_digit cs # dotted_groups (dropWhile is_digit cs)
      else [])"
  by pat_completeness auto
termination
  by (relation "measure length") (auto simp: length_dropWhile_le less_Suc_eq_le)

text \<open>
  \<^verbatim>\<open>re.match(r'(\d+(?:\.\d+)*)', s)\<close> followed by \<^verbatim>\<open>group(1).split('.')\<close>: the digit groups
  of the match, or \<open>None\<close> when the string does not start with a digit.
\<close>

definition numeric_part :: "string \<Rightarrow> string list option" where
  "numeric_part s =
     (if takeWhile is_digit s = [] then None
      else Some (takeWhile is_digit s # dotted_groups (dropWhile is_digit s)))"

definition parse_version :: "string \<Rightarrow> int list" where
  "parse_version version_str =
     (case numeric_part (strip version_str) of
        Some parts \<Rightarrow> map int_of_digits parts
      | None \<Rightarrow> [0])"

definition compare_qemu_versions :: "string \<Rightarrow> string \<Rightarrow> bool" where
  "compare_qemu_versions source_version target_version =
     (if source_version = [] \<or> target_version = [] then True
      else tuple_ge (parse_version target_version) (parse_version source_version))"

subsection \<open>\<^verbatim>\<open>ResourceEstimator._check_qemu_compatibility\<close>\<close>

definition ResourceEstimator_parse_qemu_version :: "string \<Rightarrow> int list" where
  "ResourceEstimator_parse_qemu_version version_str =
     (case those (map py_int (take 3 (split_on (CHR ''.'') version_str))) of
        Some parts \<Rightarrow> parts
      | None \<Rightarrow> [0, 0, 0])"

definition ResourceEstimator_check_qemu_compatibility ::
  "NodeInfo \<Rightarrow> NodeInfo option \<Rightarrow> bool" where
  "ResourceEstimator_check_qemu_compatibility target_node source_node =
     (case source_node of
        None \<Rightarrow> True
      | Some s \<Rightarrow>
          if qemu_version target_node = [] \<or> qemu_version s = [] then True
          else tuple_ge (ResourceEstimator_parse_qemu_version (qemu_version target_node))
                        (ResourceEstimator_parse_qemu_version (qemu_version s)))"

section \<open>Node classification\<close>

text \<open>
  The node objects of a cluster are shared between \<^verbatim>\<open>cluster.nodes\<close>, the list of overloaded
  nodes and the list of underloaded nodes, and \<^verbatim>\<open>balance_cluster\<close> mutates them. The
  classification functions are therefore written once over references \<open>r\<close> with a
  dereferencing function \<open>deref\<close>: for a plain list of nodes \<open>deref\<close> is the identity, and
  for the node objects of a cluster a reference is the index of the object in
  \<^verbatim>\<open>cluster.nodes\<close>. \<^verbatim>\<open>list.sort\<close> is stable, also with \<^verbatim>\<open>reverse=True\<close>, and so is
  \<^const>\<open>sort_key\<close>; a descending sort is a sort by the negated key.
\<close>

subsection \<open>\<^verbatim>\<open>VMBalancer.find_overloaded_nodes\<close> and \<^verbatim>\<open>VMBalancer.find_underloaded_nodes\<close>\<close>

definition is_overloaded_source :: "config \<Rightarrow> NodeInfo \<Rightarrow> bool" where
  "is_overloaded_source cfg node =
     (if name_node node \<in> excluded_source_nodes cfg \<or> id_node node \<in> excluded_source_nodes cfg
      then False
      else \<not> is_maintenance node \<and>
           (cpu_allocation_ratio node > cpu_overload_threshold cfg \<or>
            memory_usage_percent node > memory_overload_threshold cfg))"

definition overloaded_key :: "NodeInfo \<Rightarrow> real" where
  "overloaded_key n = max (cpu_allocation_ratio n) (memory_usage_percent n)"

definition overloaded_refs :: "config \<Rightarrow> ('r \<Rightarrow> NodeInfo) \<Rightarrow> 'r list \<Rightarrow> 'r list" where
  "overloaded_refs cfg deref rs =
     sort_key (\<lambda>r. - overloaded_key (deref r))
       (filter (\<lambda>r. is_overloaded_source cfg (deref r)) rs)"

definition find_overloaded_nodes :: "config \<Rightarrow> NodeInfo list \<Rightarrow> NodeInfo list" where
  "find_overloaded_nodes cfg nodes = overloaded_refs cfg (\<lambda>n. n) nodes"

definition is_underloaded_target :: "config \<Rightarrow> NodeInfo \<Rightarrow> bool" where
  "is_underloaded_target cfg node =
     (if name_node node \<in> excluded_target_nodes cfg \<or> id_node node \<in> excluded_target_nodes cfg
      then False
      else let cpu_has_capacity = (cpu_allocation_ratio node < cpu_target_threshold cfg);
               memory_has_capacity = (memory_usage_percent node < memory_target_threshold cfg)
           in can_accept_vms node \<and> cpu_has_capacity \<and> memory_has_capacity)"

definition underloaded_refs :: "config \<Rightarrow> ('r \<Rightarrow> NodeInfo) \<Rightarrow> 'r list \<Rightarrow> 'r list" where
  "underloaded_refs cfg deref rs =
     sort_key (\<lambda>r. (cpu_allocation_ratio (deref r), memory_usage_percent (deref r)))
       (filter (\<lambda>r. is_underloaded_target cfg (deref r)) rs)"

definition find_underloaded_nodes :: "config \<Rightarrow> NodeInfo list \<Rightarrow> NodeInfo list" where
  "find_underloaded_nodes cfg nodes = underloaded_refs cfg (\<lambda>n. n) nodes"

subsection \<open>\<^verbatim>\<open>NodeAnalyzer.find_overloaded_nodes\<close>\<close>

text \<open>
  The package's \<^verbatim>\<open>NodeInfo\<close> (module \<^verbatim>\<open>models/node.py\<close>) is not among the sources. Its
  properties \<^verbatim>\<open>effective_cpu_load\<close> and \<^verbatim>\<open>cpu_load_score\<close> are parameters of the model; the
  fields and \<^verbatim>\<open>memory_usage_percent\<close> are those of the record above.
\<close>

definition NodeAnalyzer_is_node_overloaded ::
  "config \<Rightarrow> (NodeInfo \<Rightarrow> real) \<Rightarrow> NodeInfo \<Rightarrow> bool" where
  "NodeAnalyzer_is_node_overloaded cfg effective_cpu_load node =
     (let cpu_overloaded = (effective_cpu_load node > cpu_overload_threshold cfg);
          memory_overloaded = (memory_usage_percent node > memory_overload_threshold cfg)
      in \<not> is_maintenance node \<and> (cpu_overloaded \<or> memory_overloaded))"

definition NodeAnalyzer_is_excluded_source_node :: "config \<Rightarrow> NodeInfo \<Rightarrow> bool" where
  "NodeAnalyzer_is_excluded_source_node cfg node =
     (name_node node \<in> excluded_source_nodes cfg \<or> id_node node \<in> excluded_source_nodes cfg)"

definition NodeAnalyzer_overloaded_key :: "(NodeInfo \<Rightarrow> real) \<Rightarrow> NodeInfo \<Rightarrow> real" where
  "NodeAnalyzer_overloaded_key cpu_load_score n = cpu_load_score n + memory_usage_percent n / 100"

definition NodeAnalyzer_find_overloaded_nodes ::
  "config \<Rightarrow> (NodeInfo \<Rightarrow> real) \<Rightarrow> (NodeInfo \<Rightarrow> real) \<Rightarrow> NodeInfo list \<Rightarrow> NodeInfo list" where
  "NodeAnalyzer_find_overloaded_nodes cfg effective_cpu_load cpu_load_score nodes =
     sort_key (\<lambda>n. - NodeAnalyzer_overloaded_key cpu_load_score n)
       (filter (\<lambda>node. \<not> NodeAnalyzer_is_excluded_source_node cfg node \<and>
                        NodeAnalyzer_is_node_overloaded cfg effective_cpu_load node) nodes)"

section \<open>VM selection\<close>

type_synonym datetime = int

definition hours :: "int \<Rightarrow> int" where
  "hours h = h * 3600000000"

text \<open>\<^verbatim>\<open>datetime.min\<close>, the first microsecond of year 1, counted from 1970.\<close>

definition datetime_min :: datetime where
  "datetime_min = - 62135596800000000"

definition vm_size_key :: "VMInfo \<Rightarrow> real" where
  "vm_size_key vm = real_of_int (cpu_cores vm) + real_of_int (memory_mb vm) / 1024"

subsection \<open>\<^verbatim>\<open>VMBalancer.select_vm_for_migration\<close>\<close>

definition select_vm_for_migration ::
  "(string \<rightharpoonup> datetime) \<Rightarrow> datetime \<Rightarrow> VMInfo list \<Rightarrow> NodeInfo \<Rightarrow> VMInfo option" where
  "select_vm_for_migration history now vms source_node =
     (let all_vms_on_node = filter (\<lambda>vm. node_id vm = id_node source_node) vms;
          candidates = filter can_migrate all_vms_on_node
      in if candidates = [] then None
         else let recent_cutoff = now - hours 1;
                  recent_candidates =
                    filter (\<lambda>vm. dict_get (history (id_vm vm)) datetime_min < recent_cutoff)
                      candidates
              in (case sort_key vm_size_key recent_candidates of
                    [] \<Rightarrow> None
                  | selected_vm # _ \<Rightarrow> Some selected_vm))"

subsection \<open>\<^verbatim>\<open>MigrationStrategy\<close>\<close>

text \<open>
  The module \<^verbatim>\<open>constants.py\<close> is not among the sources: the two retention periods
  \<^verbatim>\<open>MIGRATION_HISTORY_RETENTION_HOURS\<close> and \<^verbatim>\<open>MIGRATION_BLACKLIST_RETENTION_HOURS\<close> are
  parameters \<open>h_success\<close> and \<open>h_fail\<close>, in hours. The attributes of a
  \<^verbatim>\<open>MigrationStrategy\<close> that change are its two dictionaries.
\<close>

record strategy =
  ms_migration_history :: "string \<rightharpoonup> datetime"
  ms_migration_blacklist :: "string \<rightharpoonup> datetime"

definition MigrationStrategy_filter_recently_migrated_vms ::
  "int \<Rightarrow> strategy \<Rightarrow> datetime \<Rightarrow> VMInfo list \<Rightarrow> VMInfo list" where
  "MigrationStrategy_filter_recently_migrated_vms h_success ms now candidates =
     (let recent_cutoff = now - hours h_success
      in filter (\<lambda>vm. dict_get (ms_migration_history ms (id_vm vm)) datetime_min < recent_cutoff)
           candidates)"

definition MigrationStrategy_filter_blacklisted_vms ::
  "int \<Rightarrow> strategy \<Rightarrow> datetime \<Rightarrow> VMInfo list \<Rightarrow> VMInfo list" where
  "MigrationStrategy_filter_blacklisted_vms h_fail ms now candidates =
     (let blacklist_cutoff = now - hours h_fail
      in filter (\<lambda>vm. dict_get (ms_migration_blacklist ms (id_vm vm)) datetime_min < blacklist_cutoff)
           candidates)"

definition MigrationStrategy_select_vm_for_migration ::
  "int \<Rightarrow> int \<Rightarrow> strategy \<Rightarrow> datetime \<Rightarrow> VMInfo list \<Rightarrow> NodeInfo \<Rightarrow> VMInfo option" where
  "MigrationStrategy_select_vm_for_migration h_success h_fail ms now vms source_node =
     (let all_vms_on_node = filter (\<lambda>vm. node_id vm = id_node source_node) vms;
          candidates = filter can_migrate all_vms_on_node
      in if candidates = [] then None
         else let candidates1 =
                    MigrationStrategy_filter_recently_migrated_vms h_success ms now candidates
              in if candidates1 = [] then None
                 else let candidates2 =
                            MigrationStrategy_filter_blacklisted_vms h_fail ms now candidates1
                      in (case sort_key vm_size_key candidates2 of
                            [] \<Rightarrow> None
                          | selected_vm # _ \<Rightarrow> Some selected_vm))"

definition MigrationStrategy_record_migration_start ::
  "strategy \<Rightarrow> datetime \<Rightarrow> string \<Rightarrow> strategy" where
  "MigrationStrategy_record_migration_start ms now vm_id =
     ms\<lparr>ms_migration_history := (ms_migration_history ms)(vm_id \<mapsto> now)\<rparr>"

definition MigrationStrategy_record_migration_failure ::
  "strategy \<Rightarrow> datetime \<Rightarrow> string \<Rightarrow> strategy" where
  "MigrationStrategy_record_migration_failure ms now vm_id =
     ms\<lparr>ms_migration_blacklist := (ms_migration_blacklist ms)(vm_id \<mapsto> now)\<rparr>"

section \<open>Acceptance check\<close>

text \<open>Python's \<^verbatim>\<open>a / b\<close> on integers raises on a zero divisor.\<close>

definition true_div :: "int \<Rightarrow> int \<Rightarrow> py_error + real" where
  "true_div a b = (if b = 0 then Inl ZeroDivisionError else Inr (real_of_int a / real_of_int b))"

subsection \<open>\<^verbatim>\<open>VMBalancer.can_node_accept_vm\<close>\<close>

text \<open>
  \<^verbatim>\<open>can_node_accept_vm\<close> is only called while \<^verbatim>\<open>balance_cluster\<close> runs, where the attribute
  \<^verbatim>\<open>_current_cluster_nodes\<close> holds the nodes of the cluster.
\<close>

definition get_source_node_for_vm :: "NodeInfo list \<Rightarrow> VMInfo \<Rightarrow> NodeInfo option" where
  "get_source_node_for_vm current_cluster_nodes vm =
     find (\<lambda>node. id_node node = node_id vm) current_cluster_nodes"

definition can_node_accept_vm ::
  "config \<Rightarrow> NodeInfo list \<Rightarrow> NodeInfo \<Rightarrow> VMInfo \<Rightarrow> py_error + bool" where
  "can_node_accept_vm cfg current_cluster_nodes node vm =
     (case true_div (cpu_used node + cpu_cores vm) (cpu_total node) of
        Inl e \<Rightarrow> Inl e
      | Inr estimated_cpu_ratio \<Rightarrow>
          (case true_div (memory_mb vm) (memory_total_mb node) of
             Inl e \<Rightarrow> Inl e
           | Inr q \<Rightarrow>
               (let estimated_memory = memory_usage_percent node + q * 100;
                    cpu_ok = (estimated_cpu_ratio < cpu_overload_threshold cfg);
                    memory_ok = (estimated_memory < memory_overload_threshold cfg);
                    qemu_ok =
                      (case get_source_node_for_vm current_cluster_nodes vm of
                         None \<Rightarrow> True
                       | Some source_node \<Rightarrow>
                           if qemu_version node \<noteq> [] \<and> qemu_version source_node \<noteq> []
                           then compare_qemu_versions (qemu_version source_node)
                                  (qemu_version node)
                           else True)
                in Inr (cpu_ok \<and> memory_ok \<and> qemu_ok))))"

subsection \<open>\<^verbatim>\<open>ResourceEstimator\<close>\<close>

definition ResourceEstimator_estimate_post_migration_resources ::
  "NodeInfo \<Rightarrow> VMInfo \<Rightarrow> py_error + real \<times> real" where
  "ResourceEstimator_estimate_post_migration_resources node vm =
     (case true_div (cpu_used node + cpu_cores vm) (cpu_total node) of
        Inl e \<Rightarrow> Inl e
      | Inr estimated_cpu_ratio \<Rightarrow>
          (case true_div (memory_mb vm) (memory_total_mb node) of
             Inl e \<Rightarrow> Inl e
           | Inr q \<Rightarrow> Inr (estimated_cpu_ratio, memory_usage_percent node + q * 100)))"

text \<open>
  The two attributes of a \<^verbatim>\<open>ResourceEstimator\<close>, \<^verbatim>\<open>cpu_overload_threshold\<close> and
  \<^verbatim>\<open>memory_overload_threshold\<close>, are the first two arguments.
\<close>

definition ResourceEstimator_can_node_accept_vm ::
  "real \<Rightarrow> real \<Rightarrow> NodeInfo \<Rightarrow> VMInfo \<Rightarrow> NodeInfo option \<Rightarrow> py_error + bool" where
  "ResourceEstimator_can_node_accept_vm cpu_overload memory_overload node vm source_node =
     (case ResourceEstimator_estimate_post_migration_resources node vm of
        Inl e \<Rightarrow> Inl e
      | Inr (estimated_cpu_ratio, estimated_memory_percent) \<Rightarrow>
          (let cpu_ok = (estimated_cpu_ratio < cpu_overload);
               memory_ok = (estimated_memory_percent < memory_overload);
               qemu_ok = ResourceEstimator_check_qemu_compatibility node source_node
           in Inr (cpu_ok \<and> memory_ok \<and> qemu_ok)))"

section \<open>The orchestrator (\<^verbatim>\<open>VMBalancer.balance_cluster\<close>)\<close>

text \<open>
  The remote API as \<^verbatim>\<open>balance_cluster\<close> sees it. \<^verbatim>\<open>get_cluster_vms\<close> is the list it returns
  for the cluster. \<^verbatim>\<open>migrate_vm\<close> catches every exception and returns a truth value; it
  takes the VM id, the target node id, the timeout and the time of the call, and gives the
  outcome together with the time at which it returns.
\<close>

record api =
  get_cluster_vms :: "VMInfo list"
  migrate_vm :: "string \<Rightarrow> string \<Rightarrow> int \<Rightarrow> datetime \<Rightarrow> bool \<times> datetime"

text \<open>
  The state that \<^verbatim>\<open>balance_cluster\<close> reads and writes: the node objects of the cluster
  (a node object is addressed by its index in \<open>nodes\<close>), the attribute
  \<^verbatim>\<open>migration_history\<close>, the clock read by \<^verbatim>\<open>datetime.now()\<close>, the log of the calls of
  \<^verbatim>\<open>api.migrate_vm\<close>, and the two local variables that the loop updates.
\<close>

record state =
  nodes :: "NodeInfo list"
  migration_history :: "string \<rightharpoonup> datetime"
  clock :: datetime
  migrate_calls :: "(string \<times> string) list"
  underloaded_nodes :: "nat list"
  migrations_performed :: int

fun find_target_node ::
  "config \<Rightarrow> NodeInfo list \<Rightarrow> VMInfo \<Rightarrow> nat list \<Rightarrow> py_error + nat option" where
  "find_target_node cfg heap vm [] = Inr None"
| "find_target_node cfg heap vm (r # rs) =
     (case can_node_accept_vm cfg heap (heap ! r) vm of
        Inl e \<Rightarrow> Inl e
      | Inr accepted \<Rightarrow> if accepted then Inr (Some r) else find_target_node cfg heap vm rs)"

text \<open>
  \<^verbatim>\<open>source_node.vm_count -= 1\<close> followed by \<^verbatim>\<open>target_node.vm_count += 1\<close>, on the shared
  node objects.
\<close>

definition update_vm_counts :: "nat \<Rightarrow> nat \<Rightarrow> NodeInfo list \<Rightarrow> NodeInfo list" where
  "update_vm_counts src tgt heap =
     (let heap1 = heap[src := (heap ! src)\<lparr>vm_count := vm_count (heap ! src) - 1\<rparr>]
      in heap1[tgt := (heap1 ! tgt)\<lparr>vm_count := vm_count (heap1 ! tgt) + 1\<rparr>])"

text \<open>
  \<^verbatim>\<open>list.remove(x)\<close> drops the first element that is equal to \<open>x\<close>; \<^verbatim>\<open>NodeInfo\<close> is a
  dataclass, so two node objects are equal when their fields are. The element removed below
  is always in the list.
\<close>

fun remove_first :: "('a \<Rightarrow> bool) \<Rightarrow> 'a list \<Rightarrow> 'a list" where
  "remove_first P [] = []"
| "remove_first P (x # xs) = (if P x then xs else x # remove_first P xs)"

text \<open>
  The body of the loop over the overloaded nodes, after the test of the cap. The first
  component of the result is the exception that left the body, if any.
\<close>

definition balance_step ::
  "config \<Rightarrow> api \<Rightarrow> VMInfo list \<Rightarrow> nat \<Rightarrow> state \<Rightarrow> py_error option \<times> state" where
  "balance_step cfg a cluster_vms src st =
     (case select_vm_for_migration (migration_history st) (clock st) cluster_vms (nodes st ! src) of
        None \<Rightarrow> (None, st)
      | Some vm_to_migrate \<Rightarrow>
          (case find_target_node cfg (nodes st) vm_to_migrate (underloaded_nodes st) of
             Inl e \<Rightarrow> (Some e, st)
           | Inr None \<Rightarrow> (None, st)
           | Inr (Some tgt) \<Rightarrow>
               if dry_run cfg
               then (None, st\<lparr>migrations_performed := migrations_performed st + 1,
                              nodes := update_vm_counts src tgt (nodes st)\<rparr>)
               else
                 (let (ok, returned_at) =
                        migrate_vm a (id_vm vm_to_migrate) (id_node (nodes st ! tgt))
                          (migration_timeout cfg) (clock st);
                      st1 = st\<lparr>clock := returned_at,
                               migrate_calls := migrate_calls st @
                                 [(id_vm vm_to_migrate, id_node (nodes st ! tgt))]\<rparr>
                  in if ok
                     then
                       (let st2 = st1\<lparr>migration_history :=
                                        (migration_history st1)(id_vm vm_to_migrate \<mapsto> clock st1),
                                      migrations_performed := migrations_performed st1 + 1,
                                      nodes := update_vm_counts src tgt (nodes st1)\<rparr>
                        in (case can_node_accept_vm cfg (nodes st2) (nodes st2 ! tgt) vm_to_migrate of
                              Inl e \<Rightarrow> (Some e, st2)
                            | Inr accepted \<Rightarrow>
                                if \<not> accepted
                                then (None, st2\<lparr>underloaded_nodes :=
                                        remove_first (\<lambda>r. nodes st2 ! r = nodes st2 ! tgt)
                                          (underloaded_nodes st2)\<rparr>)
                                else (None, st2)))
                     else (None, st1))))"

fun balance_loop ::
  "config \<Rightarrow> api \<Rightarrow> VMInfo list \<Rightarrow> nat list \<Rightarrow> state \<Rightarrow> py_error option \<times> state" where
  "balance_loop cfg a cluster_vms [] st = (None, st)"
| "balance_loop cfg a cluster_vms (src # rest) st =
     (if migrations_performed st \<ge> max_migrations_per_cycle cfg then (None, st)
      else (case balance_step cfg a cluster_vms src st of
              (Some e, st') \<Rightarrow> (Some e, st')
            | (None, st') \<Rightarrow> balance_loop cfg a cluster_vms rest st'))"

text \<open>
  \<^verbatim>\<open>balance_cluster\<close> returns the number of migrations performed, or is left by an exception
  (which \<^verbatim>\<open>run_balance_cycle\<close> catches). The second component is the state it leaves behind.
\<close>

definition balance_cluster :: "config \<Rightarrow> api \<Rightarrow> state \<Rightarrow> (py_error + int) \<times> state" where
  "balance_cluster cfg a st =
     (let overloaded_nodes = overloaded_refs cfg (\<lambda>r. nodes st ! r) [0..<length (nodes st)];
          underloaded = underloaded_refs cfg (\<lambda>r. nodes st ! r) [0..<length (nodes st)];
          st0 = st\<lparr>underloaded_nodes := underloaded\<rparr>
      in if overloaded_nodes = [] then (Inr 0, st0)
         else if underloaded = [] then (Inr 0, st0)
         else (case balance_loop cfg a (get_cluster_vms a) overloaded_nodes
                      (st0\<lparr>migrations_performed := 0\<rparr>) of
                 (Some e, st') \<Rightarrow> (Inl e, st')
               | (None, st') \<Rightarrow> (Inr (migrations_performed st'), st')))"

text \<open>A state as it is when a cycle starts for a cluster with the given nodes.\<close>

definition initial_state :: "NodeInfo list \<Rightarrow> (string \<rightharpoonup> datetime) \<Rightarrow> datetime \<Rightarrow> state" where
  "initial_state ns history now =
     \<lparr>nodes = ns, migration_history = history, clock = now, migrate_calls = [],
      underloaded_nodes = [], migrations_performed = 0\<rparr>"

section \<open>Scenario S1\<close>

text \<open>
  Node A with 8 vCPUs allocated on 1 core and 40 percent of its memory in use holds VM x
  (2 vCPUs, 4096 MB); node B is empty but for 10 percent of its memory.
\<close>

definition node_A :: NodeInfo where
  "node_A = \<lparr>id_node = ''1'', name_node = ''A'', cpu_total = 1, cpu_used = 8,
     memory_total_mb = 10240, memory_used_mb = 4096, vm_count = 1, is_maintenance = False,
     vm_creation_allowed = True, vm_limit = 0, qemu_version = []\<rparr>"

definition node_B :: NodeInfo where
  "node_B = \<lparr>id_node = ''2'', name_node = ''B'', cpu_total = 1, cpu_used = 0,
     memory_total_mb = 10240, memory_used_mb = 1024, vm_count = 0, is_maintenance = False,
     vm_creation_allowed = True, vm_limit = 0, qemu_version = []\<rparr>"

definition vm_x :: VMInfo where
  "vm_x = \<lparr>id_vm = ''100'', name_vm = ''x'', node_id = ''1'', cpu_cores = 2,
     memory_mb = 4096, state = ''active'', can_migrate = True\<rparr>"

text \<open>An API whose migrations all succeed after 30 seconds, and one whose migrations all
  fail after 30 seconds.\<close>

definition api_succeeding :: api where
  "api_succeeding =
     \<lparr>get_cluster_vms = [vm_x], migrate_vm = (\<lambda>vm_id target timeout now. (True, now + 30000000))\<rparr>"

definition api_failing :: api where
  "api_failing =
     \<lparr>get_cluster_vms = [vm_x], migrate_vm = (\<lambda>vm_id target timeout now. (False, now + 30000000))\<rparr>"

definition s1_state :: state where
  "s1_state = initial_state [node_A, node_B] Map.empty 0"

section \<open>Further inputs used in examples\<close>

text \<open>An active VM record without mounted ISO, without snapshots and without the key
  \<^verbatim>\<open>balancer_mode\<close>.\<close>

definition vm_data_plain :: vm_data where
  "vm_data_plain = \<lparr>vd_name = Some ''x'', vd_state = Some ''active'', vd_iso_mounted = Some False,
     vd_snapshot_count = Some 0, vd_balancer_mode = None\<rparr>"

text \<open>An empty node that reports no physical cores.\<close>

definition node_Z :: NodeInfo where
  "node_Z = \<lparr>id_node = ''3'', name_node = ''Z'', cpu_total = 0, cpu_used = 0,
     memory_total_mb = 10240, memory_used_mb = 1024, vm_count = 0, is_maintenance = False,
     vm_creation_allowed = True, vm_limit = 0, qemu_version = []\<rparr>"

text \<open>A history in which VM x was migrated at time 0, and a time ten minutes later.\<close>

definition ten_minutes :: datetime where
  "ten_minutes = 600000000"

definition history_x :: "string \<rightharpoonup> datetime" where
  "history_x = [''100'' \<mapsto> 0]"

definition strategy_x :: strategy where
  "strategy_x = \<lparr>ms_migration_history = history_x, ms_migration_blacklist = Map.empty\<rparr>"

text \<open>
  The combined score in the words of the specification:
  \<open>cpu_allocation_ratio + memory_usage_percent / 100\<close>.
\<close>

definition spec_combined_score :: "NodeInfo \<Rightarrow> real" where
  "spec_combined_score n = cpu_allocation_ratio n + memory_usage_percent n / 100"

text \<open>A node with one vCPU on one core and 75 percent of its memory in use.\<close>

definition node_C :: NodeInfo where
  "node_C = \<lparr>id_node = ''4'', name_node = ''C'', cpu_total = 1, cpu_used = 1,
     memory_total_mb = 10240, memory_used_mb = 7680, vm_count = 1, is_maintenance = False,
     vm_creation_allowed = True, vm_limit = 0, qemu_version = []\<rparr>"

section \<open>Scenario S6\<close>

text \<open>
  Three overloaded nodes P, Q and R (8 vCPUs on 1 core each), each of which holds one VM
  of 3 vCPUs and 1024 MB, and one target T with 3 vCPUs allocated on 1 core.
\<close>

definition node_P :: NodeInfo where
  "node_P = \<lparr>id_node = ''11'', name_node = ''P'', cpu_total = 1, cpu_used = 8,
     memory_total_mb = 10240, memory_used_mb = 1024, vm_count = 1, is_maintenance = False,
     vm_creation_allowed = True, vm_limit = 0, qemu_version = []\<rparr>"

definition node_Q :: NodeInfo where
  "node_Q = node_P\<lparr>id_node := ''12'', name_node := ''Q''\<rparr>"

definition node_R :: NodeInfo where
  "node_R = node_P\<lparr>id_node := ''13'', name_node := ''R''\<rparr>"

definition node_T :: NodeInfo where
  "node_T = node_P\<lparr>id_node := ''14'', name_node := ''T'', cpu_used := 3, vm_count := 1\<rparr>"

definition vm_p :: VMInfo where
  "vm_p = \<lparr>id_vm = ''201'', name_vm = ''p'', node_id = ''11'', cpu_cores = 3,
     memory_mb = 1024, state = ''active'', can_migrate = True\<rparr>"

definition vm_q :: VMInfo where
  "vm_q = vm_p\<lparr>id_vm := ''202'', name_vm := ''q'', node_id := ''12''\<rparr>"

definition vm_r :: VMInfo where
  "vm_r = vm_p\<lparr>id_vm := ''203'', name_vm := ''r'', node_id := ''13''\<rparr>"

definition s6_api :: api where
  "s6_api =
     \<lparr>get_cluster_vms = [vm_p, vm_q, vm_r],
      migrate_vm = (\<lambda>vm_id target timeout now. (True, now + 30000000))\<rparr>"

definition s6_state :: state where
  "s6_state = initial_state [node_P, node_Q, node_R, node_T] Map.empty 0"

definition cap :: "int \<Rightarrow> config" where
  "cap n = default_config\<lparr>max_migrations_per_cycle := n\<rparr>"

section \<open>The language of the regular expression\<close>

text \<open>
  For the comparison with \<^const>\<open>numeric_part\<close>: a dotted sequence of digit groups, and the
  condition on the rest of the string under which the match of \<^verbatim>\<open>\d+(?:\.\d+)*\<close> ends.
\<close>

definition dotted :: "string list \<Rightarrow> string" where
  "dotted gs = (case gs of [] \<Rightarrow> [] | g # hs \<Rightarrow> g @ concat (map (\<lambda>h. CHR ''.'' # h) hs))"

definition digit_group :: "string \<Rightarrow> bool" where
  "digit_group g = (g \<noteq> [] \<and> list_all is_digit g)"

definition match_ends :: "string \<Rightarrow> bool" where
  "match_ends rest =
     (case rest of
        [] \<Rightarrow> True
      | c # cs \<Rightarrow> \<not> is_digit c \<and> \<not> (c = CHR ''.'' \<and> takeWhile is_digit cs \<noteq> []))"

text \<open>Two node objects that agree in every field but \<^verbatim>\<open>vm_count\<close>.\<close>

definition same_but_vm_count :: "NodeInfo \<Rightarrow> NodeInfo \<Rightarrow> bool" where
  "same_but_vm_count n n' = (n' = n\<lparr>vm_count := vm_count n'\<rparr>)"

section \<open>Scenario S5\<close>

text \<open>
  Scenario S1 with an API whose migrations fail: the state after the cycle, and the state
  in which the next cycle starts ten minutes later.
\<close>

definition s5_after_failure :: state where
  "s5_after_failure = snd (balance_cluster default_config api_failing s1_state)"

definition s5_next_cycle :: state where
  "s5_next_cycle = s5_after_failure\<lparr>clock := clock s5_after_failure + ten_minutes\<rparr>"

text \<open>An empty \<^verbatim>\<open>MigrationStrategy\<close>.\<close>

definition strategy_empty :: strategy where
  "strategy_empty = \<lparr>ms_migration_history = Map.empty, ms_migration_blacklist = Map.empty\<rparr>"

text \<open>The state of scenario S1 when the loop over the overloaded nodes starts.\<close>

definition s5_loop_start :: state where
  "s5_loop_start = s1_state\<lparr>underloaded_nodes := [1]\<rparr>"

section \<open>Properties\<close>

subsection \<open>VM migratability\<close>

lemma lower_active: "lower ''active'' = ''active''"
  by (simp add: lower_def lower_char_def)

text \<open>
  Claim C10. For every VM record of the remote inventory in which the field
  \<^verbatim>\<open>balancer_mode\<close> is absent, \<^verbatim>\<open>can_vm_migrate\<close> returns false: the missing field defaults
  to \<^verbatim>\<open>"off"\<close>. This holds whatever the other fields are, so also for a VM that is active,
  has no ISO mounted and has no snapshots.
\<close>

theorem can_vm_migrate_without_balancer_mode:
  "vd_balancer_mode d = None \<Longrightarrow> can_vm_migrate d = False"
  by (simp add: can_vm_migrate_def dict_get_def Let_def)

theorem can_vm_migrate_without_balancer_mode_witness:
  "vd_balancer_mode vm_data_plain = None \<and> vd_state vm_data_plain = Some ''active'' \<and>
   vd_iso_mounted vm_data_plain = Some False \<and> vd_snapshot_count vm_data_plain = Some 0 \<and>
   can_vm_migrate vm_data_plain = False \<and>
   can_vm_migrate (vm_data_plain\<lparr>vd_balancer_mode := Some ''cluster''\<rparr>) = True"
proof -
  have h: "vd_balancer_mode vm_data_plain = None" by (simp add: vm_data_plain_def)
  have "can_vm_migrate (vm_data_plain\<lparr>vd_balancer_mode := Some ''cluster''\<rparr>) = True"
    by (simp add: can_vm_migrate_def dict_get_def vm_data_plain_def lower_active)
  with can_vm_migrate_without_balancer_mode [OF h] show ?thesis
    by (simp add: vm_data_plain_def)
qed

subsection \<open>The acceptance check\<close>

text \<open>
  Claim C9. The estimate of the resources after a migration divides by the \<^verbatim>\<open>cpu_total\<close> of
  the target without a guard: for a target with \<^verbatim>\<open>cpu_total = 0\<close> and any VM, the acceptance
  check of either implementation raises \<^verbatim>\<open>ZeroDivisionError\<close> instead of returning a truth
  value. Such a node has allocation ratio 0, so it is eligible as a target as soon as the
  CPU target threshold is positive and the other conditions of eligibility hold.
\<close>

theorem zero_cpu_total_raises:
  assumes "cpu_total t = 0"
  shows "can_node_accept_vm cfg ns t v = Inl ZeroDivisionError \<and>
         ResourceEstimator_estimate_post_migration_resources t v = Inl ZeroDivisionError \<and>
         ResourceEstimator_can_node_accept_vm co mo t v s = Inl ZeroDivisionError \<and>
         cpu_allocation_ratio t = 0 \<and>
         is_underloaded_target cfg t =
           (name_node t \<notin> excluded_target_nodes cfg \<and> id_node t \<notin> excluded_target_nodes cfg \<and>
            can_accept_vms t \<and> 0 < cpu_target_threshold cfg \<and>
            memory_usage_percent t < memory_target_threshold cfg)"
  using assms
  by (auto simp add: can_node_accept_vm_def ResourceEstimator_can_node_accept_vm_def
      ResourceEstimator_estimate_post_migration_resources_def true_div_def
      cpu_allocation_ratio_def is_underloaded_target_def Let_def)

text \<open>
  In a cluster of the overloaded node A of scenario S1 and the node Z without cores, Z is
  the only target, and the exception leaves \<^verbatim>\<open>balance_cluster\<close>.
\<close>

theorem zero_cpu_total_raises_witness:
  "cpu_total node_Z = 0 \<and>
   is_underloaded_target default_config node_Z \<and>
   find_underloaded_nodes default_config [node_A, node_Z] = [node_Z] \<and>
   can_node_accept_vm default_config [node_A, node_Z] node_Z vm_x = Inl ZeroDivisionError \<and>
   ResourceEstimator_can_node_accept_vm 7 70 node_Z vm_x (Some node_A) = Inl ZeroDivisionError \<and>
   fst (balance_cluster default_config api_succeeding (initial_state [node_A, node_Z] Map.empty 0))
     = Inl ZeroDivisionError"
proof -
  have h: "cpu_total node_Z = 0" by (simp add: node_Z_def)
  have e: "is_underloaded_target default_config node_Z"
    using zero_cpu_total_raises [OF h, of default_config]
    by (simp add: default_config_def node_Z_def can_accept_vms_def memory_usage_percent_def)
  have f: "find_underloaded_nodes default_config [node_A, node_Z] = [node_Z]"
    by code_simp
  have b: "fst (balance_cluster default_config api_succeeding
                 (initial_state [node_A, node_Z] Map.empty 0)) = Inl ZeroDivisionError"
    by code_simp
  from h e f b zero_cpu_total_raises [OF h, of default_config "[node_A, node_Z]" vm_x 7 70 "Some node_A"]
  show ?thesis by simp
qed



subsection \<open>VM selection\<close>

lemma first_of_sorted_in:
  "(case sort_key k xs of [] \<Rightarrow> None | x # _ \<Rightarrow> Some x) = Some v \<Longrightarrow> v \<in> set xs"
proof -
  assume a: "(case sort_key k xs of [] \<Rightarrow> None | x # _ \<Rightarrow> Some x) = Some v"
  then obtain ys where "sort_key k xs = v # ys"
    by (cases "sort_key k xs") auto
  then have "v \<in> set (sort_key k xs)" by simp
  then show ?thesis by simp
qed

lemma first_of_sorted_None:
  "((case sort_key k xs of [] \<Rightarrow> None | x # _ \<Rightarrow> Some x) = None) = (xs = [])"
proof (cases "sort_key k xs")
  case Nil
  then have "length xs = 0" by (metis length_sort list.size(3))
  with Nil show ?thesis by simp
next
  case (Cons y ys)
  then have "xs \<noteq> []" by auto
  with Cons show ?thesis by simp
qed

lemma select_vm_for_migration_Some:
  assumes "select_vm_for_migration history now vms src = Some v"
  shows "v \<in> set vms \<and> node_id v = id_node src \<and> can_migrate v \<and>
         dict_get (history (id_vm v)) datetime_min < now - hours 1"
proof -
  let ?c = "filter can_migrate (filter (\<lambda>vm. node_id vm = id_node src) vms)"
  let ?r = "filter (\<lambda>vm. dict_get (history (id_vm vm)) datetime_min < now - hours 1) ?c"
  from assms have "(case sort_key vm_size_key ?r of [] \<Rightarrow> None | x # _ \<Rightarrow> Some x) = Some v"
    by (simp add: select_vm_for_migration_def Let_def split: if_splits)
  then have "v \<in> set ?r" by (rule first_of_sorted_in)
  then show ?thesis by simp
qed

lemma select_vm_for_migration_None:
  "(select_vm_for_migration history now vms src = None) =
   (\<forall>v \<in> set vms. node_id v = id_node src \<and> can_migrate v \<longrightarrow>
        \<not> dict_get (history (id_vm v)) datetime_min < now - hours 1)"
  by (auto simp add: select_vm_for_migration_def Let_def first_of_sorted_None filter_empty_conv)

lemma MigrationStrategy_select_vm_for_migration_Some:
  assumes "MigrationStrategy_select_vm_for_migration hs hf ms now vms src = Some v"
  shows "v \<in> set vms \<and> node_id v = id_node src \<and> can_migrate v \<and>
         dict_get (ms_migration_history ms (id_vm v)) datetime_min < now - hours hs \<and>
         dict_get (ms_migration_blacklist ms (id_vm v)) datetime_min < now - hours hf"
proof -
  let ?c = "filter can_migrate (filter (\<lambda>vm. node_id vm = id_node src) vms)"
  let ?r = "MigrationStrategy_filter_recently_migrated_vms hs ms now ?c"
  let ?b = "MigrationStrategy_filter_blacklisted_vms hf ms now ?r"
  from assms have "(case sort_key vm_size_key ?b of [] \<Rightarrow> None | x # _ \<Rightarrow> Some x) = Some v"
    by (simp add: MigrationStrategy_select_vm_for_migration_def Let_def split: if_splits)
  then have "v \<in> set ?b" by (rule first_of_sorted_in)
  then show ?thesis
    by (simp add: MigrationStrategy_filter_blacklisted_vms_def
        MigrationStrategy_filter_recently_migrated_vms_def Let_def)
qed

lemma MigrationStrategy_select_vm_for_migration_None:
  "(MigrationStrategy_select_vm_for_migration hs hf ms now vms src = None) =
   (\<forall>v \<in> set vms. node_id v = id_node src \<and> can_migrate v \<and>
        dict_get (ms_migration_history ms (id_vm v)) datetime_min < now - hours hs \<longrightarrow>
        \<not> dict_get (ms_migration_blacklist ms (id_vm v)) datetime_min < now - hours hf)"
  by (auto simp add: MigrationStrategy_select_vm_for_migration_def Let_def first_of_sorted_None
      MigrationStrategy_filter_blacklisted_vms_def
      MigrationStrategy_filter_recently_migrated_vms_def filter_empty_conv)

text \<open>
  Claim C7. A VM with an entry \<open>t\<close> in the migration history is not selected at any time
  \<open>now\<close> with \<open>now - H_success \<le> t\<close>, that is, not before and not at \<open>t + H_success\<close>:
  the selection drops every candidate whose entry is at or after \<open>now - H_success\<close>, and
  it returns \<open>None\<close> when every migratable VM of the source node is dropped.
  \<open>H_success\<close> is one hour in \<^verbatim>\<open>VMBalancer.select_vm_for_migration\<close> and the parameter
  \<open>hs\<close> in \<^verbatim>\<open>MigrationStrategy.select_vm_for_migration\<close>.
\<close>

theorem recently_migrated_vm_not_selected:
  "(history vid = Some t \<and> now - hours 1 \<le> t \<longrightarrow>
      (\<forall>v. select_vm_for_migration history now vms src = Some v \<longrightarrow> id_vm v \<noteq> vid)) \<and>
   ((\<forall>v \<in> set vms. node_id v = id_node src \<and> can_migrate v \<longrightarrow>
        (\<exists>t'. history (id_vm v) = Some t' \<and> now - hours 1 \<le> t')) \<longrightarrow>
      select_vm_for_migration history now vms src = None) \<and>
   (ms_migration_history ms vid = Some t \<and> now - hours hs \<le> t \<longrightarrow>
      (\<forall>v. MigrationStrategy_select_vm_for_migration hs hf ms now vms src = Some v \<longrightarrow>
           id_vm v \<noteq> vid)) \<and>
   ((\<forall>v \<in> set vms. node_id v = id_node src \<and> can_migrate v \<longrightarrow>
        (\<exists>t'. ms_migration_history ms (id_vm v) = Some t' \<and> now - hours hs \<le> t')) \<longrightarrow>
      MigrationStrategy_select_vm_for_migration hs hf ms now vms src = None)"
proof (intro conjI impI allI)
  fix v
  assume h: "history vid = Some t \<and> now - hours 1 \<le> t"
    and s: "select_vm_for_migration history now vms src = Some v"
  from select_vm_for_migration_Some [OF s]
  have "dict_get (history (id_vm v)) datetime_min < now - hours 1" by simp
  with h show "id_vm v \<noteq> vid" by (auto simp add: dict_get_def)
next
  assume "\<forall>v \<in> set vms. node_id v = id_node src \<and> can_migrate v \<longrightarrow>
        (\<exists>t'. history (id_vm v) = Some t' \<and> now - hours 1 \<le> t')"
  then show "select_vm_for_migration history now vms src = None"
    unfolding select_vm_for_migration_None by (fastforce simp add: dict_get_def)
next
  fix v
  assume h: "ms_migration_history ms vid = Some t \<and> now - hours hs \<le> t"
    and s: "MigrationStrategy_select_vm_for_migration hs hf ms now vms src = Some v"
  from MigrationStrategy_select_vm_for_migration_Some [OF s]
  have "dict_get (ms_migration_history ms (id_vm v)) datetime_min < now - hours hs" by simp
  with h show "id_vm v \<noteq> vid" by (auto simp add: dict_get_def)
next
  assume "\<forall>v \<in> set vms. node_id v = id_node src \<and> can_migrate v \<longrightarrow>
        (\<exists>t'. ms_migration_history ms (id_vm v) = Some t' \<and> now - hours hs \<le> t')"
  then show "MigrationStrategy_select_vm_for_migration hs hf ms now vms src = None"
    unfolding MigrationStrategy_select_vm_for_migration_None by (fastforce simp add: dict_get_def)
qed

theorem recently_migrated_vm_not_selected_witness:
  "history_x ''100'' = Some 0 \<and> ten_minutes - hours 1 \<le> 0 \<and>
   select_vm_for_migration history_x ten_minutes [vm_x] node_A \<noteq> Some vm_x \<and>
   select_vm_for_migration history_x ten_minutes [vm_x] node_A = None \<and>
   MigrationStrategy_select_vm_for_migration 1 1 strategy_x ten_minutes [vm_x] node_A \<noteq> Some vm_x \<and>
   MigrationStrategy_select_vm_for_migration 1 1 strategy_x ten_minutes [vm_x] node_A = None \<and>
   select_vm_for_migration history_x (hours 1 + 1) [vm_x] node_A = Some vm_x \<and>
   MigrationStrategy_select_vm_for_migration 1 1 strategy_x (hours 1 + 1) [vm_x] node_A = Some vm_x"
proof -
  have h1: "history_x ''100'' = Some 0 \<and> ten_minutes - hours 1 \<le> 0"
    by (simp add: history_x_def ten_minutes_def hours_def)
  have h2: "ms_migration_history strategy_x ''100'' = Some 0 \<and> ten_minutes - hours 1 \<le> 0"
    by (simp add: strategy_x_def history_x_def ten_minutes_def hours_def)
  have h3: "\<forall>v \<in> set [vm_x]. node_id v = id_node node_A \<and> can_migrate v \<longrightarrow>
        (\<exists>t'. history_x (id_vm v) = Some t' \<and> ten_minutes - hours 1 \<le> t')"
    by (simp add: history_x_def vm_x_def ten_minutes_def hours_def)
  have h4: "\<forall>v \<in> set [vm_x]. node_id v = id_node node_A \<and> can_migrate v \<longrightarrow>
        (\<exists>t'. ms_migration_history strategy_x (id_vm v) = Some t' \<and> ten_minutes - hours 1 \<le> t')"
    by (simp add: strategy_x_def history_x_def vm_x_def ten_minutes_def hours_def)
  note inst = recently_migrated_vm_not_selected
    [where history = history_x and vid = "''100''" and t = 0 and now = ten_minutes
       and vms = "[vm_x]" and src = node_A and ms = strategy_x and hs = 1 and hf = 1]
  have a: "select_vm_for_migration history_x ten_minutes [vm_x] node_A \<noteq> Some vm_x"
    using inst h1 by (auto simp add: vm_x_def)
  have b: "select_vm_for_migration history_x ten_minutes [vm_x] node_A = None"
    using inst h3 by blast
  have c: "MigrationStrategy_select_vm_for_migration 1 1 strategy_x ten_minutes [vm_x] node_A
             \<noteq> Some vm_x"
    using inst h2 by (auto simp add: vm_x_def)
  have d: "MigrationStrategy_select_vm_for_migration 1 1 strategy_x ten_minutes [vm_x] node_A = None"
    using inst h4 by blast
  have e: "select_vm_for_migration history_x (hours 1 + 1) [vm_x] node_A = Some vm_x"
    by (simp add: select_vm_for_migration_def history_x_def vm_x_def node_A_def dict_get_def
        hours_def)
  have f: "MigrationStrategy_select_vm_for_migration 1 1 strategy_x (hours 1 + 1) [vm_x] node_A
             = Some vm_x"
    by (simp add: MigrationStrategy_select_vm_for_migration_def
        MigrationStrategy_filter_recently_migrated_vms_def
        MigrationStrategy_filter_blacklisted_vms_def strategy_x_def
        history_x_def vm_x_def node_A_def dict_get_def hours_def datetime_min_def)
  from h1 a b c d e f show ?thesis by blast
qed

subsection \<open>The order of the overloaded nodes\<close>

lemma sort_key_descending_nth:
  fixes k :: "'a \<Rightarrow> real"
  assumes "i < j" and "j < length xs"
  shows "k (sort_key (\<lambda>x. - k x) xs ! j) \<le> k (sort_key (\<lambda>x. - k x) xs ! i)"
proof -
  let ?ys = "sort_key (\<lambda>x. - k x) xs"
  have s: "sorted (map (\<lambda>x. - k x) ?ys)" by (rule sorted_sort_key)
  from assms have l: "j < length (map (\<lambda>x. - k x) ?ys)" by simp
  from assms have "i \<le> j" by simp
  from sorted_nth_mono [OF s this l] assms show ?thesis by simp
qed

lemma node_A_measures:
  "cpu_allocation_ratio node_A = 8" "memory_usage_percent node_A = 40"
  by (simp_all add: cpu_allocation_ratio_def memory_usage_percent_def node_A_def)

lemma node_C_measures:
  "cpu_allocation_ratio node_C = 1" "memory_usage_percent node_C = 75"
  by (simp_all add: cpu_allocation_ratio_def memory_usage_percent_def node_C_def)

lemma find_overloaded_nodes_A_C:
  "find_overloaded_nodes default_config [node_A, node_C] = [node_C, node_A]"
  by (simp add: find_overloaded_nodes_def overloaded_refs_def is_overloaded_source_def
      overloaded_key_def node_A_measures node_C_measures)
     (simp add: default_config_def node_A_def node_C_def)

lemma NodeAnalyzer_find_overloaded_nodes_A_C:
  "NodeAnalyzer_find_overloaded_nodes default_config cpu_allocation_ratio cpu_allocation_ratio
     [node_A, node_C] = [node_A, node_C]"
  by (simp add: NodeAnalyzer_find_overloaded_nodes_def NodeAnalyzer_is_node_overloaded_def
      NodeAnalyzer_is_excluded_source_node_def NodeAnalyzer_overloaded_key_def
      node_A_measures node_C_measures)
     (simp add: default_config_def node_A_def node_C_def)

text \<open>
  Claim C4, as the code has it. The two implementations sort by different keys.
  \<^verbatim>\<open>VMBalancer.find_overloaded_nodes\<close> returns the qualifying nodes in descending order of
  \<open>max(cpu_allocation_ratio, memory_usage_percent)\<close>.
  \<^verbatim>\<open>NodeAnalyzer.find_overloaded_nodes\<close> returns them in descending order of
  \<open>cpu_load_score + memory_usage_percent / 100\<close>; this is the combined score of the
  specification when \<^verbatim>\<open>cpu_load_score\<close> is the allocation ratio. In both cases, if \<open>a\<close>
  precedes \<open>b\<close> in the result then the key of \<open>a\<close> is at least the key of \<open>b\<close>.
\<close>

theorem find_overloaded_nodes_descending:
  "(i < j \<and> j < length (find_overloaded_nodes cfg ns) \<longrightarrow>
      max (cpu_allocation_ratio (find_overloaded_nodes cfg ns ! j))
          (memory_usage_percent (find_overloaded_nodes cfg ns ! j))
      \<le> max (cpu_allocation_ratio (find_overloaded_nodes cfg ns ! i))
            (memory_usage_percent (find_overloaded_nodes cfg ns ! i))) \<and>
   (i < j \<and> j < length (NodeAnalyzer_find_overloaded_nodes cfg ecl cls ns) \<longrightarrow>
      cls (NodeAnalyzer_find_overloaded_nodes cfg ecl cls ns ! j) +
        memory_usage_percent (NodeAnalyzer_find_overloaded_nodes cfg ecl cls ns ! j) / 100
      \<le> cls (NodeAnalyzer_find_overloaded_nodes cfg ecl cls ns ! i) +
          memory_usage_percent (NodeAnalyzer_find_overloaded_nodes cfg ecl cls ns ! i) / 100) \<and>
   (i < j \<and> j < length (NodeAnalyzer_find_overloaded_nodes cfg ecl cpu_allocation_ratio ns) \<longrightarrow>
      spec_combined_score (NodeAnalyzer_find_overloaded_nodes cfg ecl cpu_allocation_ratio ns ! j)
      \<le> spec_combined_score
            (NodeAnalyzer_find_overloaded_nodes cfg ecl cpu_allocation_ratio ns ! i))"
proof (intro conjI impI)
  assume "i < j \<and> j < length (find_overloaded_nodes cfg ns)"
  then have "overloaded_key (find_overloaded_nodes cfg ns ! j)
               \<le> overloaded_key (find_overloaded_nodes cfg ns ! i)"
    unfolding find_overloaded_nodes_def overloaded_refs_def
    by (intro sort_key_descending_nth) simp_all
  then show "max (cpu_allocation_ratio (find_overloaded_nodes cfg ns ! j))
          (memory_usage_percent (find_overloaded_nodes cfg ns ! j))
      \<le> max (cpu_allocation_ratio (find_overloaded_nodes cfg ns ! i))
            (memory_usage_percent (find_overloaded_nodes cfg ns ! i))"
    by (simp only: overloaded_key_def)
next
  assume "i < j \<and> j < length (NodeAnalyzer_find_overloaded_nodes cfg ecl cls ns)"
  then have "NodeAnalyzer_overloaded_key cls (NodeAnalyzer_find_overloaded_nodes cfg ecl cls ns ! j)
      \<le> NodeAnalyzer_overloaded_key cls (NodeAnalyzer_find_overloaded_nodes cfg ecl cls ns ! i)"
    unfolding NodeAnalyzer_find_overloaded_nodes_def
    by (intro sort_key_descending_nth) simp_all
  then show "cls (NodeAnalyzer_find_overloaded_nodes cfg ecl cls ns ! j) +
        memory_usage_percent (NodeAnalyzer_find_overloaded_nodes cfg ecl cls ns ! j) / 100
      \<le> cls (NodeAnalyzer_find_overloaded_nodes cfg ecl cls ns ! i) +
          memory_usage_percent (NodeAnalyzer_find_overloaded_nodes cfg ecl cls ns ! i) / 100"
    by (simp only: NodeAnalyzer_overloaded_key_def)
next
  assume "i < j \<and> j < length (NodeAnalyzer_find_overloaded_nodes cfg ecl cpu_allocation_ratio ns)"
  then have "NodeAnalyzer_overloaded_key cpu_allocation_ratio
        (NodeAnalyzer_find_overloaded_nodes cfg ecl cpu_allocation_ratio ns ! j)
      \<le> NodeAnalyzer_overloaded_key cpu_allocation_ratio
        (NodeAnalyzer_find_overloaded_nodes cfg ecl cpu_allocation_ratio ns ! i)"
    unfolding NodeAnalyzer_find_overloaded_nodes_def
    by (intro sort_key_descending_nth) simp_all
  then show "spec_combined_score
        (NodeAnalyzer_find_overloaded_nodes cfg ecl cpu_allocation_ratio ns ! j)
      \<le> spec_combined_score
            (NodeAnalyzer_find_overloaded_nodes cfg ecl cpu_allocation_ratio ns ! i)"
    by (simp only: NodeAnalyzer_overloaded_key_def spec_combined_score_def)
qed

theorem find_overloaded_nodes_descending_witness:
  "(0::nat) < 1 \<and> 1 < length (find_overloaded_nodes default_config [node_A, node_C]) \<and>
   1 < length (NodeAnalyzer_find_overloaded_nodes default_config cpu_allocation_ratio
                 cpu_allocation_ratio [node_A, node_C]) \<and>
   find_overloaded_nodes default_config [node_A, node_C] = [node_C, node_A] \<and>
   max (cpu_allocation_ratio node_A) (memory_usage_percent node_A)
     \<le> max (cpu_allocation_ratio node_C) (memory_usage_percent node_C) \<and>
   NodeAnalyzer_find_overloaded_nodes default_config cpu_allocation_ratio cpu_allocation_ratio
     [node_A, node_C] = [node_A, node_C] \<and>
   spec_combined_score node_C \<le> spec_combined_score node_A"
proof -
  note inst = find_overloaded_nodes_descending
    [where i = 0 and j = 1 and cfg = default_config and ns = "[node_A, node_C]"
       and ecl = cpu_allocation_ratio and cls = cpu_allocation_ratio]
  have l1: "(0::nat) < 1 \<and> 1 < length (find_overloaded_nodes default_config [node_A, node_C])"
    by (simp add: find_overloaded_nodes_A_C)
  have l2: "(0::nat) < 1 \<and> 1 < length (NodeAnalyzer_find_overloaded_nodes default_config
              cpu_allocation_ratio cpu_allocation_ratio [node_A, node_C])"
    by (simp add: NodeAnalyzer_find_overloaded_nodes_A_C)
  from inst l1 have a: "max (cpu_allocation_ratio node_A) (memory_usage_percent node_A)
     \<le> max (cpu_allocation_ratio node_C) (memory_usage_percent node_C)"
    by (simp add: find_overloaded_nodes_A_C)
  from inst l2 have b: "spec_combined_score node_C \<le> spec_combined_score node_A"
    by (simp add: NodeAnalyzer_find_overloaded_nodes_A_C)
  from l1 l2 a b show ?thesis
    by (simp add: find_overloaded_nodes_A_C NodeAnalyzer_find_overloaded_nodes_A_C)
qed

text \<open>
  \<^verbatim>\<open>VMBalancer.find_overloaded_nodes\<close> does not sort by the combined score of the
  specification: node C (ratio 1, memory 75 percent, score 1.75) is put before node A
  (ratio 8, memory 40 percent, score 8.4), because 75 is the larger maximum.
\<close>

theorem find_overloaded_nodes_order_counterexample:
  "find_overloaded_nodes default_config [node_A, node_C] = [node_C, node_A] \<and>
   spec_combined_score node_C < spec_combined_score node_A"
  by (simp add: find_overloaded_nodes_A_C spec_combined_score_def node_A_measures node_C_measures)

subsection \<open>The cap on the migrations of a cycle\<close>

lemma balance_step_performed:
  "migrations_performed (snd (balance_step cfg a vms src st)) = migrations_performed st \<or>
   migrations_performed (snd (balance_step cfg a vms src st)) = migrations_performed st + 1"
  by (auto simp add: balance_step_def Let_def
      split: option.splits sum.splits prod.splits if_splits)

lemma balance_loop_performed:
  "migrations_performed st \<le> migrations_performed (snd (balance_loop cfg a vms srcs st)) \<and>
   migrations_performed (snd (balance_loop cfg a vms srcs st))
     \<le> max (migrations_performed st) (max_migrations_per_cycle cfg)"
proof (induction srcs arbitrary: st)
  case Nil
  show ?case by simp
next
  case (Cons src rest)
  show ?case
  proof (cases "migrations_performed st \<ge> max_migrations_per_cycle cfg")
    case True
    then show ?thesis by simp
  next
    case False
    obtain e st' where s: "balance_step cfg a vms src st = (e, st')"
      by (cases "balance_step cfg a vms src st")
    from balance_step_performed [of cfg a vms src st] s
    have p: "migrations_performed st' = migrations_performed st \<or>
             migrations_performed st' = migrations_performed st + 1" by simp
    show ?thesis
    proof (cases e)
      case (Some err)
      with False s p show ?thesis by auto
    next
      case None
      with False s have "balance_loop cfg a vms (src # rest) st = balance_loop cfg a vms rest st'"
        by simp
      with Cons.IH [of st'] False p show ?thesis by auto
    qed
  qed
qed

lemma balance_loop_at_cap:
  "max_migrations_per_cycle cfg \<le> migrations_performed st \<Longrightarrow>
   balance_loop cfg a vms srcs st = (None, st)"
  by (cases srcs) simp_all

lemma balance_cluster_result:
  assumes "fst (balance_cluster cfg a st) = Inr n"
  shows "0 \<le> n \<and> n \<le> max 0 (max_migrations_per_cycle cfg)"
proof -
  let ?ov = "overloaded_refs cfg (\<lambda>r. nodes st ! r) [0..<length (nodes st)]"
  let ?un = "underloaded_refs cfg (\<lambda>r. nodes st ! r) [0..<length (nodes st)]"
  let ?st0 = "st\<lparr>underloaded_nodes := ?un, migrations_performed := 0\<rparr>"
  show ?thesis
  proof (cases "?ov = [] \<or> ?un = []")
    case True
    with assms show ?thesis by (auto simp add: balance_cluster_def Let_def split: if_splits)
  next
    case False
    obtain e st' where l: "balance_loop cfg a (get_cluster_vms a) ?ov ?st0 = (e, st')"
      by (cases "balance_loop cfg a (get_cluster_vms a) ?ov ?st0")
    with False assms have n: "n = migrations_performed st'"
      by (auto simp add: balance_cluster_def Let_def split: option.splits)
    from balance_loop_performed [of ?st0 cfg a "get_cluster_vms a" ?ov] l
    show ?thesis unfolding n by simp
  qed
qed


lemma s6_two_of_three:
  "fst (balance_cluster (cap 2) s6_api s6_state) = Inr 2"
  "migrate_calls (snd (balance_cluster (cap 2) s6_api s6_state)) =
     [(''201'', ''14''), (''202'', ''14'')]"
  by code_simp+

text \<open>
  Claim C1, as the code has it. \<^verbatim>\<open>max_migrations_per_cycle\<close> is an integer that the code
  never checks, so the bound is \<open>max(0, max_migrations_per_cycle)\<close>: the number that
  \<^verbatim>\<open>balance_cluster\<close> returns lies between 0 and that bound, and it is at most
  \<^verbatim>\<open>max_migrations_per_cycle\<close> whenever the cap is not negative. The loop over the
  overloaded nodes attempts no migration once the count has reached the cap, each
  iteration adds at most one to the count, and the count stays below the bound also when
  an exception leaves the loop.
\<close>

theorem migrations_performed_capped:
  "(fst (balance_cluster cfg a st) = Inr n \<longrightarrow>
      0 \<le> n \<and> n \<le> max 0 (max_migrations_per_cycle cfg)) \<and>
   (max_migrations_per_cycle cfg \<le> migrations_performed st \<longrightarrow>
      balance_loop cfg a vms srcs st = (None, st)) \<and>
   (migrations_performed (snd (balance_step cfg a vms src st)) = migrations_performed st \<or>
    migrations_performed (snd (balance_step cfg a vms src st)) = migrations_performed st + 1) \<and>
   migrations_performed (snd (balance_loop cfg a vms srcs st))
     \<le> max (migrations_performed st) (max_migrations_per_cycle cfg)"
  using balance_cluster_result [of cfg a st n] balance_loop_at_cap [of cfg st a vms srcs]
    balance_step_performed [of cfg a vms src st] balance_loop_performed [of st cfg a vms srcs]
  by blast

theorem migrations_performed_capped_witness:
  "fst (balance_cluster (cap 2) s6_api s6_state) = Inr 2 \<and>
   (0::int) \<le> 2 \<and> (2::int) \<le> max 0 (max_migrations_per_cycle (cap 2)) \<and>
   migrate_calls (snd (balance_cluster (cap 2) s6_api s6_state)) =
     [(''201'', ''14''), (''202'', ''14'')] \<and>
   max_migrations_per_cycle (cap 2) \<le> migrations_performed (s6_state\<lparr>migrations_performed := 2\<rparr>) \<and>
   balance_loop (cap 2) s6_api [vm_p, vm_q, vm_r] [0, 1, 2] (s6_state\<lparr>migrations_performed := 2\<rparr>)
     = (None, s6_state\<lparr>migrations_performed := 2\<rparr>)"
proof -
  note inst = migrations_performed_capped
    [where cfg = "cap 2" and a = s6_api and st = s6_state and n = 2]
  note inst2 = migrations_performed_capped
    [where cfg = "cap 2" and a = s6_api and st = "s6_state\<lparr>migrations_performed := 2\<rparr>"
       and vms = "[vm_p, vm_q, vm_r]" and srcs = "[0, 1, 2]"]
  have c: "max_migrations_per_cycle (cap 2)
             \<le> migrations_performed (s6_state\<lparr>migrations_performed := 2\<rparr>)"
    by (simp add: cap_def)
  from inst s6_two_of_three(1)
  have "(0::int) \<le> 2 \<and> (2::int) \<le> max 0 (max_migrations_per_cycle (cap 2))" by blast
  moreover from inst2 c
  have "balance_loop (cap 2) s6_api [vm_p, vm_q, vm_r] [0, 1, 2]
          (s6_state\<lparr>migrations_performed := 2\<rparr>) = (None, s6_state\<lparr>migrations_performed := 2\<rparr>)"
    by blast
  ultimately show ?thesis using s6_two_of_three c by blast
qed


text \<open>
  With a cap of \<open>-1\<close> the loop stops at once and \<^verbatim>\<open>balance_cluster\<close> returns 0, which is
  more than the cap.
\<close>

theorem negative_cap_counterexample:
  "fst (balance_cluster (cap (- 1)) api_succeeding s1_state) = Inr 0 \<and>
   max_migrations_per_cycle (cap (- 1)) = - 1 \<and>
   \<not> (0 \<le> max_migrations_per_cycle (cap (- 1)))"
proof -
  have "fst (balance_cluster (cap (- 1)) api_succeeding s1_state) = Inr 0"
    by code_simp
  then show ?thesis by (simp add: cap_def)
qed

subsection \<open>QEMU version comparison\<close>

lemma is_digit_dot: "\<not> is_digit (CHR ''.'')"
  by (simp add: is_digit_def)

lemma takeWhile_digit_group:
  assumes "digit_group g" and "takeWhile is_digit rs = []"
  shows "takeWhile is_digit (g @ rs) = g" and "dropWhile is_digit (g @ rs) = rs"
    and "takeWhile is_digit (g @ rs) \<noteq> []"
proof -
  from assms(1) have a: "\<And>c. c \<in> set g \<Longrightarrow> is_digit c" and n: "g \<noteq> []"
    by (auto simp add: digit_group_def list_all_iff)
  from assms(2) have d: "dropWhile is_digit rs = rs"
    by (cases rs) (auto split: if_splits)
  from a assms(2) show t: "takeWhile is_digit (g @ rs) = g"
    by (simp add: takeWhile_append2)
  from a d show "dropWhile is_digit (g @ rs) = rs"
    by (simp add: dropWhile_append2)
  from t n show "takeWhile is_digit (g @ rs) \<noteq> []" by simp
qed

lemma tail_no_digit:
  assumes "match_ends rest"
  shows "takeWhile is_digit (concat (map (\<lambda>h. CHR ''.'' # h) hs) @ rest) = []"
proof (cases hs)
  case Nil
  with assms show ?thesis by (cases rest) (auto simp add: match_ends_def)
next
  case (Cons h hs')
  then show ?thesis by (simp add: is_digit_dot)
qed

lemma dotted_groups_tail:
  assumes "list_all digit_group hs" and "match_ends rest"
  shows "dotted_groups (concat (map (\<lambda>h. CHR ''.'' # h) hs) @ rest) = hs"
  using assms
proof (induction hs)
  case Nil
  then show ?case by (cases rest) (auto simp add: match_ends_def)
next
  case (Cons h hs)
  let ?tl = "concat (map (\<lambda>h. CHR ''.'' # h) hs) @ rest"
  from Cons.prems have g: "digit_group h" and r: "list_all digit_group hs" by simp_all
  have e: "takeWhile is_digit ?tl = []" using Cons.prems(2) by (rule tail_no_digit)
  from takeWhile_digit_group [OF g e] Cons.IH [OF r Cons.prems(2)]
  show ?case by simp
qed

lemma numeric_part_dotted:
  assumes "gs \<noteq> []" and "list_all digit_group gs" and "match_ends rest"
  shows "numeric_part (dotted gs @ rest) = Some gs"
proof -
  from assms(1) obtain g hs where gs: "gs = g # hs" by (cases gs) auto
  let ?tl = "concat (map (\<lambda>h. CHR ''.'' # h) hs) @ rest"
  from assms(2) gs have g: "digit_group g" and r: "list_all digit_group hs" by simp_all
  have e: "takeWhile is_digit ?tl = []" using assms(3) by (rule tail_no_digit)
  from takeWhile_digit_group [OF g e] dotted_groups_tail [OF r assms(3)]
  show ?thesis by (simp add: numeric_part_def dotted_def gs)
qed

lemma numeric_part_no_digit:
  "takeWhile is_digit s = [] \<Longrightarrow> numeric_part s = None"
  by (simp add: numeric_part_def)

lemma parse_version_dotted:
  assumes "gs \<noteq> []" and "list_all digit_group gs" and "match_ends rest"
    and "strip (dotted gs @ rest) = dotted gs @ rest"
  shows "parse_version (dotted gs @ rest) = map int_of_digits gs"
  using numeric_part_dotted [OF assms(1-3)] assms(4)
  by (simp add: parse_version_def)

lemma parse_version_no_number:
  "takeWhile is_digit (strip s) = [] \<Longrightarrow> parse_version s = [0]"
  by (simp add: parse_version_def numeric_part_def)

lemma compare_qemu_versions_iff:
  "compare_qemu_versions sv tv =
     (sv = [] \<or> tv = [] \<or> tuple_ge (parse_version tv) (parse_version sv))"
  by (simp add: compare_qemu_versions_def)

lemma parse_version_suffix_example:
  "parse_version (dotted [''7'', ''1'', ''0''] @ ''-1ubuntu1'') = [7, 1, 0]"
proof -
  have m: "match_ends ''-1ubuntu1''" by (simp add: match_ends_def is_digit_def)
  have d: "list_all digit_group [''7'', ''1'', ''0'']" by (simp add: digit_group_def is_digit_def)
  have s: "strip (dotted [''7'', ''1'', ''0''] @ ''-1ubuntu1'') = dotted [''7'', ''1'', ''0''] @ ''-1ubuntu1''"
    by code_simp
  from parse_version_dotted [OF _ d m s] show ?thesis by (simp add: int_of_digits_def)
qed

text \<open>
  Claim C6. The claim describes \<^verbatim>\<open>VMManagerAPI.compare_qemu_versions\<close>: the lemmas above
  show that it takes the leading dotted tuple, that it gives \<open>(0,)\<close> to a string without
  leading number, that it returns true when a version is empty, and that it compares the
  tuples otherwise. \<^verbatim>\<open>ResourceEstimator._check_qemu_compatibility\<close> does not do so: its
  parser splits the string at the dots and converts each of the first three parts with
  \<^verbatim>\<open>int\<close>, so a suffix such as \<^verbatim>\<open>-1ubuntu1\<close> makes the conversion fail and the version
  becomes \<open>(0, 0, 0)\<close>. For the source version \<^verbatim>\<open>6.2.0\<close> and the target version
  \<^verbatim>\<open>7.1.0-1ubuntu1\<close> the check of the package fails and the target is refused, where the
  claim and \<^verbatim>\<open>compare_qemu_versions\<close> let the migration pass.
\<close>

theorem qemu_suffix_rejected:
  "ResourceEstimator_parse_qemu_version ''7.1.0-1ubuntu1'' = [0, 0, 0] \<and>
   ResourceEstimator_parse_qemu_version ''abc'' = [0, 0, 0] \<and>
   ResourceEstimator_check_qemu_compatibility
     (node_B\<lparr>qemu_version := ''7.1.0-1ubuntu1''\<rparr>) (Some (node_A\<lparr>qemu_version := ''6.2.0''\<rparr>))
     = False \<and>
   ResourceEstimator_can_node_accept_vm 7 70
     (node_B\<lparr>qemu_version := ''7.1.0-1ubuntu1''\<rparr>) vm_x (Some (node_A\<lparr>qemu_version := ''6.2.0''\<rparr>))
     = Inr False \<and>
   parse_version ''7.1.0-1ubuntu1'' = [7, 1, 0] \<and>
   parse_version ''abc'' = [0] \<and>
   compare_qemu_versions ''6.2.0'' ''7.1.0-1ubuntu1'' = True \<and>
   can_node_accept_vm default_config
     [node_A\<lparr>qemu_version := ''6.2.0''\<rparr>, node_B\<lparr>qemu_version := ''7.1.0-1ubuntu1''\<rparr>]
     (node_B\<lparr>qemu_version := ''7.1.0-1ubuntu1''\<rparr>) vm_x = Inr True"
  by (intro conjI; code_simp)

subsection \<open>The update of the node snapshots\<close>

lemma same_but_vm_count_refl: "same_but_vm_count n n"
  by (simp add: same_but_vm_count_def)

lemma same_but_vm_count_update: "same_but_vm_count n (n\<lparr>vm_count := k\<rparr>)"
  by (simp add: same_but_vm_count_def)

lemma same_but_vm_count_trans:
  "same_but_vm_count n m \<Longrightarrow> same_but_vm_count m k \<Longrightarrow> same_but_vm_count n k"
  by (cases n, cases m, cases k) (simp add: same_but_vm_count_def)

lemma same_but_vm_count_fields:
  assumes "same_but_vm_count n n'"
  shows "cpu_used n' = cpu_used n" "cpu_total n' = cpu_total n"
    "memory_used_mb n' = memory_used_mb n" "memory_total_mb n' = memory_total_mb n"
    "id_node n' = id_node n" "qemu_version n' = qemu_version n"
    "cpu_allocation_ratio n' = cpu_allocation_ratio n"
    "memory_usage_percent n' = memory_usage_percent n"
  using assms
  by (cases n; cases n'; simp add: same_but_vm_count_def cpu_allocation_ratio_def
      memory_usage_percent_def)+

lemma length_update_vm_counts: "length (update_vm_counts src tgt heap) = length heap"
  by (simp add: update_vm_counts_def Let_def)

lemma update_one_nth:
  "same_but_vm_count (xs ! j) (xs[i := (xs ! i)\<lparr>vm_count := k\<rparr>] ! j)"
proof (cases "i < length xs \<and> i = j")
  case True
  then show ?thesis by (simp add: same_but_vm_count_update)
next
  case False
  have "xs[i := (xs ! i)\<lparr>vm_count := k\<rparr>] ! j = xs ! j"
  proof (cases "i < length xs")
    case True
    with False show ?thesis by simp
  next
    case beyond: False
    then show ?thesis by (simp add: list_update_beyond)
  qed
  then show ?thesis by (simp add: same_but_vm_count_refl)
qed

lemma update_vm_counts_nth:
  "same_but_vm_count (heap ! j) (update_vm_counts src tgt heap ! j)"
proof -
  let ?h1 = "heap[src := (heap ! src)\<lparr>vm_count := vm_count (heap ! src) - 1\<rparr>]"
  have a: "same_but_vm_count (heap ! j) (?h1 ! j)" by (rule update_one_nth)
  have b: "same_but_vm_count (?h1 ! j)
             (?h1[tgt := (?h1 ! tgt)\<lparr>vm_count := vm_count (?h1 ! tgt) + 1\<rparr>] ! j)"
    by (rule update_one_nth)
  from same_but_vm_count_trans [OF a b] show ?thesis
    by (simp add: update_vm_counts_def Let_def)
qed

lemma update_vm_counts_all2:
  "list_all2 same_but_vm_count heap (update_vm_counts src tgt heap)"
  by (simp add: list_all2_conv_all_nth length_update_vm_counts update_vm_counts_nth)

lemma find_related:
  assumes "list_all2 same_but_vm_count xs ys"
  shows "rel_option same_but_vm_count
           (find (\<lambda>node. id_node node = k) xs) (find (\<lambda>node. id_node node = k) ys)"
  using assms
  by (induction rule: list_all2_induct) (auto simp add: same_but_vm_count_fields)

lemma can_node_accept_vm_same:
  assumes "list_all2 same_but_vm_count ns ns'" and "same_but_vm_count n n'"
  shows "can_node_accept_vm cfg ns' n' vm = can_node_accept_vm cfg ns n vm"
proof -
  from find_related [OF assms(1), of "node_id vm"]
  have q: "(case get_source_node_for_vm ns' vm of None \<Rightarrow> True
         | Some source_node \<Rightarrow>
             if qemu_version n \<noteq> [] \<and> qemu_version source_node \<noteq> []
             then compare_qemu_versions (qemu_version source_node) (qemu_version n) else True) =
        (case get_source_node_for_vm ns vm of None \<Rightarrow> True
         | Some source_node \<Rightarrow>
             if qemu_version n \<noteq> [] \<and> qemu_version source_node \<noteq> []
             then compare_qemu_versions (qemu_version source_node) (qemu_version n) else True)"
    unfolding get_source_node_for_vm_def
    by (cases "find (\<lambda>node. id_node node = node_id vm) ns";
        cases "find (\<lambda>node. id_node node = node_id vm) ns'")
       (auto simp add: same_but_vm_count_fields)
  show ?thesis
    unfolding can_node_accept_vm_def same_but_vm_count_fields [OF assms(2)] q
    by (rule refl)
qed

lemma find_target_node_accepts:
  "find_target_node cfg heap vm rs = Inr (Some tgt) \<Longrightarrow>
   tgt \<in> set rs \<and> can_node_accept_vm cfg heap (heap ! tgt) vm = Inr True"
  by (induction rs) (auto split: sum.splits if_splits)

text \<open>The test after a successful migration repeats the test that found the target.\<close>

lemma recheck_after_migration:
  assumes "find_target_node cfg heap vm rs = Inr (Some tgt)"
  shows "can_node_accept_vm cfg (update_vm_counts src tgt heap)
           (update_vm_counts src tgt heap ! tgt) vm = Inr True"
  using can_node_accept_vm_same [OF update_vm_counts_all2 update_vm_counts_nth]
    find_target_node_accepts [OF assms]
  by simp

lemma balance_step_unfolded:
  "balance_step cfg a cluster_vms src st =
     (case select_vm_for_migration (migration_history st) (clock st) cluster_vms (nodes st ! src) of
        None \<Rightarrow> (None, st)
      | Some vm \<Rightarrow>
          (case find_target_node cfg (nodes st) vm (underloaded_nodes st) of
             Inl e \<Rightarrow> (Some e, st)
           | Inr None \<Rightarrow> (None, st)
           | Inr (Some tgt) \<Rightarrow>
               if dry_run cfg
               then (None, st\<lparr>migrations_performed := migrations_performed st + 1,
                              nodes := update_vm_counts src tgt (nodes st)\<rparr>)
               else if fst (migrate_vm a (id_vm vm) (id_node (nodes st ! tgt))
                              (migration_timeout cfg) (clock st))
               then (None, st\<lparr>clock := snd (migrate_vm a (id_vm vm) (id_node (nodes st ! tgt))
                                             (migration_timeout cfg) (clock st)),
                              migrate_calls := migrate_calls st @
                                [(id_vm vm, id_node (nodes st ! tgt))],
                              migration_history := (migration_history st)(id_vm vm \<mapsto>
                                snd (migrate_vm a (id_vm vm) (id_node (nodes st ! tgt))
                                       (migration_timeout cfg) (clock st))),
                              migrations_performed := migrations_performed st + 1,
                              nodes := update_vm_counts src tgt (nodes st)\<rparr>)
               else (None, st\<lparr>clock := snd (migrate_vm a (id_vm vm) (id_node (nodes st ! tgt))
                                             (migration_timeout cfg) (clock st)),
                              migrate_calls := migrate_calls st @
                                [(id_vm vm, id_node (nodes st ! tgt))]\<rparr>)))"
proof (cases "select_vm_for_migration (migration_history st) (clock st) cluster_vms (nodes st ! src)")
  case None
  then show ?thesis by (simp add: balance_step_def)
next
  case (Some vm)
  show ?thesis
  proof (cases "find_target_node cfg (nodes st) vm (underloaded_nodes st)")
    case (Inl e)
    with Some show ?thesis by (simp add: balance_step_def)
  next
    case (Inr res)
    show ?thesis
    proof (cases res)
      case None
      with Some Inr show ?thesis by (simp add: balance_step_def)
    next
      case (Some tgt)
      with Inr have f: "find_target_node cfg (nodes st) vm (underloaded_nodes st) = Inr (Some tgt)"
        by simp
      note r = recheck_after_migration [OF f, of src]
      from \<open>select_vm_for_migration (migration_history st) (clock st) cluster_vms (nodes st ! src)
          = Some vm\<close> f r
      show ?thesis
        by (simp add: balance_step_def Let_def split: prod.splits)
    qed
  qed
qed

lemma balance_step_frame:
  "list_all2 same_but_vm_count (nodes st) (nodes (snd (balance_step cfg a vms src st))) \<and>
   underloaded_nodes (snd (balance_step cfg a vms src st)) = underloaded_nodes st"
  unfolding balance_step_unfolded
  by (auto simp add: update_vm_counts_all2 list_all2_refl same_but_vm_count_refl
      split: option.splits sum.splits)

lemma all2_same_trans:
  "list_all2 same_but_vm_count xs ys \<Longrightarrow> list_all2 same_but_vm_count ys zs \<Longrightarrow>
   list_all2 same_but_vm_count xs zs"
  by (rule list_all2_trans [where ?P1.0 = same_but_vm_count and ?P2.0 = same_but_vm_count])
     (auto intro: same_but_vm_count_trans)

lemma balance_loop_frame:
  "list_all2 same_but_vm_count (nodes st) (nodes (snd (balance_loop cfg a vms srcs st))) \<and>
   underloaded_nodes (snd (balance_loop cfg a vms srcs st)) = underloaded_nodes st"
proof (induction srcs arbitrary: st)
  case Nil
  show ?case by (simp add: list_all2_refl same_but_vm_count_refl)
next
  case (Cons src rest)
  obtain e st' where s: "balance_step cfg a vms src st = (e, st')"
    by (cases "balance_step cfg a vms src st")
  from balance_step_frame [of st cfg a vms src] s
  have f: "list_all2 same_but_vm_count (nodes st) (nodes st')"
    and u: "underloaded_nodes st' = underloaded_nodes st" by simp_all
  show ?case
  proof (cases "migrations_performed st \<ge> max_migrations_per_cycle cfg")
    case True
    then show ?thesis by (simp add: list_all2_refl same_but_vm_count_refl)
  next
    case False
    show ?thesis
    proof (cases e)
      case (Some err)
      with False s f u show ?thesis by simp
    next
      case None
      with False s have l: "balance_loop cfg a vms (src # rest) st = balance_loop cfg a vms rest st'"
        by simp
      from Cons.IH [of st'] f u show ?thesis
        unfolding l by (auto intro: all2_same_trans)
    qed
  qed
qed

lemma balance_cluster_frame:
  "list_all2 same_but_vm_count (nodes st) (nodes (snd (balance_cluster cfg a st)))"
proof -
  let ?ov = "overloaded_refs cfg (\<lambda>r. nodes st ! r) [0..<length (nodes st)]"
  let ?un = "underloaded_refs cfg (\<lambda>r. nodes st ! r) [0..<length (nodes st)]"
  let ?st0 = "st\<lparr>underloaded_nodes := ?un, migrations_performed := 0\<rparr>"
  from balance_loop_frame [of ?st0 cfg a "get_cluster_vms a" ?ov]
  have "list_all2 same_but_vm_count (nodes st)
          (nodes (snd (balance_loop cfg a (get_cluster_vms a) ?ov ?st0)))" by simp
  then show ?thesis
    by (auto simp add: balance_cluster_def Let_def list_all2_refl same_but_vm_count_refl
        split: prod.splits option.splits)
qed

lemma map_same_but_vm_count:
  assumes "list_all2 same_but_vm_count xs ys"
    and "\<And>n n'. same_but_vm_count n n' \<Longrightarrow> f n' = f n"
  shows "map f ys = map f xs"
  using assms(1) by (induction rule: list_all2_induct) (simp_all add: assms(2))

text \<open>No cycle changes the allocation of CPU or memory that a node snapshot records.\<close>

lemma balance_cluster_keeps_allocation:
  "map cpu_used (nodes (snd (balance_cluster cfg a st))) = map cpu_used (nodes st) \<and>
   map memory_used_mb (nodes (snd (balance_cluster cfg a st))) = map memory_used_mb (nodes st) \<and>
   map cpu_allocation_ratio (nodes (snd (balance_cluster cfg a st)))
     = map cpu_allocation_ratio (nodes st)"
  by (intro conjI map_same_but_vm_count [OF balance_cluster_frame])
     (simp_all add: same_but_vm_count_fields)

text \<open>Dry run: no call of \<^verbatim>\<open>migrate_vm\<close>, and history and clock stay as they are.\<close>

lemma balance_step_dry_run:
  assumes "dry_run cfg"
  shows "migrate_calls (snd (balance_step cfg a vms src st)) = migrate_calls st \<and>
         migration_history (snd (balance_step cfg a vms src st)) = migration_history st \<and>
         clock (snd (balance_step cfg a vms src st)) = clock st"
  using assms unfolding balance_step_unfolded
  by (auto split: option.splits sum.splits)

lemma balance_loop_dry_run:
  assumes "dry_run cfg"
  shows "migrate_calls (snd (balance_loop cfg a vms srcs st)) = migrate_calls st \<and>
         migration_history (snd (balance_loop cfg a vms srcs st)) = migration_history st \<and>
         clock (snd (balance_loop cfg a vms srcs st)) = clock st"
proof (induction srcs arbitrary: st)
  case Nil
  show ?case by simp
next
  case (Cons src rest)
  obtain e st' where s: "balance_step cfg a vms src st = (e, st')"
    by (cases "balance_step cfg a vms src st")
  from balance_step_dry_run [OF assms, of a vms src st] s
  have f: "migrate_calls st' = migrate_calls st \<and> migration_history st' = migration_history st \<and>
           clock st' = clock st" by simp
  show ?case
  proof (cases "migrations_performed st \<ge> max_migrations_per_cycle cfg")
    case True
    then show ?thesis by simp
  next
    case False
    show ?thesis
    proof (cases e)
      case (Some err)
      with False s f show ?thesis by simp
    next
      case None
      with False s have l: "balance_loop cfg a vms (src # rest) st = balance_loop cfg a vms rest st'"
        by simp
      from Cons.IH [of st'] f show ?thesis unfolding l by simp
    qed
  qed
qed

lemma balance_cluster_dry_run:
  assumes "dry_run cfg"
  shows "migrate_calls (snd (balance_cluster cfg a st)) = migrate_calls st \<and>
         migration_history (snd (balance_cluster cfg a st)) = migration_history st \<and>
         clock (snd (balance_cluster cfg a st)) = clock st"
proof -
  let ?ov = "overloaded_refs cfg (\<lambda>r. nodes st ! r) [0..<length (nodes st)]"
  let ?un = "underloaded_refs cfg (\<lambda>r. nodes st ! r) [0..<length (nodes st)]"
  let ?st0 = "st\<lparr>underloaded_nodes := ?un, migrations_performed := 0\<rparr>"
  from balance_loop_dry_run [OF assms, of a "get_cluster_vms a" ?ov ?st0]
  show ?thesis
    by (auto simp add: balance_cluster_def Let_def split: prod.splits option.splits)
qed

text \<open>A simulated migration counts and moves one unit of \<^verbatim>\<open>vm_count\<close>.\<close>

lemma balance_step_dry_run_migration:
  assumes "dry_run cfg"
    and "select_vm_for_migration (migration_history st) (clock st) vms (nodes st ! src) = Some vm"
    and "find_target_node cfg (nodes st) vm (underloaded_nodes st) = Inr (Some tgt)"
  shows "balance_step cfg a vms src st =
           (None, st\<lparr>migrations_performed := migrations_performed st + 1,
                      nodes := update_vm_counts src tgt (nodes st)\<rparr>)"
  using assms unfolding balance_step_unfolded by simp

lemma update_vm_counts_distinct:
  assumes "src \<noteq> tgt" and "src < length heap" and "tgt < length heap"
  shows "vm_count (update_vm_counts src tgt heap ! src) = vm_count (heap ! src) - 1 \<and>
         vm_count (update_vm_counts src tgt heap ! tgt) = vm_count (heap ! tgt) + 1"
  using assms by (simp add: update_vm_counts_def Let_def)

text \<open>
  With a cap of 3 in scenario S6 the three VMs of 3 vCPUs each are all sent to node T,
  whose snapshot keeps saying 3 vCPUs on 1 core; T then carries 12 vCPUs. Had the first
  migration been added to the snapshot of T, the acceptance check would have refused the
  second VM.
\<close>

lemma stale_snapshot_overloads_target:
  "fst (balance_cluster (cap 3) s6_api s6_state) = Inr 3 \<and>
   migrate_calls (snd (balance_cluster (cap 3) s6_api s6_state))
     = [(''201'', ''14''), (''202'', ''14''), (''203'', ''14'')] \<and>
   cpu_used (nodes (snd (balance_cluster (cap 3) s6_api s6_state)) ! 3) = 3 \<and>
   cpu_total node_T = 1 \<and> cpu_used node_T + cpu_cores vm_p + cpu_cores vm_q + cpu_cores vm_r = 12 \<and>
   can_node_accept_vm default_config [node_P, node_Q, node_R, node_T]
     (node_T\<lparr>cpu_used := cpu_used node_T + cpu_cores vm_p\<rparr>) vm_q = Inr False"
  by (intro conjI; code_simp)

text \<open>
  Claim C2. The claim is that a successful migration of a VM \<open>v\<close> from \<open>s\<close> to \<open>t\<close> moves
  one unit of \<^verbatim>\<open>vm_count\<close>, \<open>v.cpu_cores\<close> of \<^verbatim>\<open>cpu_used\<close> and \<open>v.memory_mb\<close> of
  \<^verbatim>\<open>memory_used_mb\<close> from the snapshot of \<open>s\<close> to the snapshot of \<open>t\<close>, so that node A of
  scenario S1 is projected to ratio 6. \<^verbatim>\<open>balance_cluster\<close> moves \<^verbatim>\<open>vm_count\<close> only
  (lemma \<open>balance_cluster_keeps_allocation\<close>). In scenario S1, after VM x (2 vCPUs,
  4096 MB) has been migrated from A to B, the snapshot of A still records 8 vCPUs and
  4096 MB, that is ratio 8, and the snapshot of B still records 0 vCPUs and 1024 MB. The
  test that follows a successful migration and is meant to drop a target that is getting
  full therefore repeats the test that chose the target, and never drops it (lemmas
  \<open>recheck_after_migration\<close> and \<open>balance_step_unfolded\<close>).
\<close>

theorem s1_projection_keeps_allocation:
  "fst (balance_cluster default_config api_succeeding s1_state) = Inr 1 \<and>
   migrate_calls (snd (balance_cluster default_config api_succeeding s1_state))
     = [(''100'', ''2'')] \<and>
   nodes (snd (balance_cluster default_config api_succeeding s1_state))
     = [node_A\<lparr>vm_count := 0\<rparr>, node_B\<lparr>vm_count := 1\<rparr>] \<and>
   cpu_cores vm_x = 2 \<and> memory_mb vm_x = 4096 \<and>
   cpu_allocation_ratio (node_A\<lparr>cpu_used := cpu_used node_A - cpu_cores vm_x\<rparr>) = 6 \<and>
   cpu_used (nodes (snd (balance_cluster default_config api_succeeding s1_state)) ! 0) = 8 \<and>
   memory_used_mb (nodes (snd (balance_cluster default_config api_succeeding s1_state)) ! 0)
     = 4096 \<and>
   cpu_allocation_ratio (nodes (snd (balance_cluster default_config api_succeeding s1_state)) ! 0)
     = 8 \<and>
   cpu_used (nodes (snd (balance_cluster default_config api_succeeding s1_state)) ! 1) = 0 \<and>
   memory_used_mb (nodes (snd (balance_cluster default_config api_succeeding s1_state)) ! 1)
     = 1024"
proof -
  have n: "nodes (snd (balance_cluster default_config api_succeeding s1_state))
             = [node_A\<lparr>vm_count := 0\<rparr>, node_B\<lparr>vm_count := 1\<rparr>]"
    by code_simp
  have r: "fst (balance_cluster default_config api_succeeding s1_state) = Inr 1"
    by code_simp
  have c: "migrate_calls (snd (balance_cluster default_config api_succeeding s1_state))
             = [(''100'', ''2'')]"
    by code_simp
  show ?thesis unfolding n
    using r c
    by (simp add: node_A_def node_B_def vm_x_def cpu_allocation_ratio_def)
qed

text \<open>
  Claim C8. In dry-run mode \<^verbatim>\<open>balance_cluster\<close> calls \<^verbatim>\<open>migrate_vm\<close> never, leaves the
  migration history as it is (\<^verbatim>\<open>VMBalancer\<close> has no blacklist), and counts every simulated
  migration (lemmas \<open>balance_cluster_dry_run\<close> and \<open>balance_step_dry_run_migration\<close>). Of
  the projection it applies the part on \<^verbatim>\<open>vm_count\<close> only, as the real path does: in
  scenario S1 the dry run reports one migration, makes no call and records nothing, and
  the snapshot of A still has 8 vCPUs and 4096 MB allocated, that of B 0 vCPUs and
  1024 MB.
\<close>

theorem s1_dry_run:
  "fst (balance_cluster (default_config\<lparr>dry_run := True\<rparr>) api_succeeding s1_state) = Inr 1 \<and>
   migrate_calls (snd (balance_cluster (default_config\<lparr>dry_run := True\<rparr>) api_succeeding s1_state))
     = [] \<and>
   migration_history
     (snd (balance_cluster (default_config\<lparr>dry_run := True\<rparr>) api_succeeding s1_state)) ''100''
     = None \<and>
   nodes (snd (balance_cluster (default_config\<lparr>dry_run := True\<rparr>) api_succeeding s1_state))
     = [node_A\<lparr>vm_count := 0\<rparr>, node_B\<lparr>vm_count := 1\<rparr>] \<and>
   cpu_cores vm_x = 2 \<and> memory_mb vm_x = 4096 \<and>
   cpu_used (node_A\<lparr>vm_count := 0\<rparr>) = 8 \<and> memory_used_mb (node_A\<lparr>vm_count := 0\<rparr>) = 4096 \<and>
   cpu_used (node_B\<lparr>vm_count := 1\<rparr>) = 0 \<and> memory_used_mb (node_B\<lparr>vm_count := 1\<rparr>) = 1024"
proof -
  have "fst (balance_cluster (default_config\<lparr>dry_run := True\<rparr>) api_succeeding s1_state) = Inr 1"
    by code_simp
  moreover have "migrate_calls
      (snd (balance_cluster (default_config\<lparr>dry_run := True\<rparr>) api_succeeding s1_state)) = []"
    by code_simp
  moreover have "migration_history
     (snd (balance_cluster (default_config\<lparr>dry_run := True\<rparr>) api_succeeding s1_state)) ''100''
     = None"
    by code_simp
  moreover have "nodes
      (snd (balance_cluster (default_config\<lparr>dry_run := True\<rparr>) api_succeeding s1_state))
     = [node_A\<lparr>vm_count := 0\<rparr>, node_B\<lparr>vm_count := 1\<rparr>]"
    by code_simp
  ultimately show ?thesis
    by (simp add: node_A_def node_B_def vm_x_def)
qed

subsection \<open>Failed migrations\<close>

lemma balance_step_failed_migration:
  assumes "\<not> dry_run cfg"
    and "select_vm_for_migration (migration_history st) (clock st) vms (nodes st ! src) = Some vm"
    and "find_target_node cfg (nodes st) vm (underloaded_nodes st) = Inr (Some tgt)"
    and "\<not> fst (migrate_vm a (id_vm vm) (id_node (nodes st ! tgt)) (migration_timeout cfg) (clock st))"
  shows "balance_step cfg a vms src st =
           (None, st\<lparr>clock := snd (migrate_vm a (id_vm vm) (id_node (nodes st ! tgt))
                                      (migration_timeout cfg) (clock st)),
                      migrate_calls := migrate_calls st @ [(id_vm vm, id_node (nodes st ! tgt))]\<rparr>)"
  using assms unfolding balance_step_unfolded by simp

text \<open>
  Claim C3, as the code has it. When a submitted migration fails or times out,
  \<^verbatim>\<open>balance_cluster\<close> of \<^verbatim>\<open>vm_balancer.py\<close> does not increment the count of performed
  migrations and goes on with the next source; it changes neither the history nor the node
  snapshots, and it keeps no blacklist. \<^verbatim>\<open>MigrationStrategy.record_migration_failure\<close>
  stores the current time for the VM in the blacklist, and
  \<^verbatim>\<open>MigrationStrategy.select_vm_for_migration\<close> returns no VM whose blacklist entry \<open>t\<close>
  satisfies \<open>now - H_fail \<le> t\<close>: a VM whose failure was recorded at \<open>t\<close> is not selected
  before and not at \<open>t + H_fail\<close>. \<open>H_fail\<close> is the parameter \<open>hf\<close>.
\<close>

theorem failed_migration_recorded:
  "(\<not> dry_run cfg \<and>
    select_vm_for_migration (migration_history st) (clock st) vms (nodes st ! src) = Some vm \<and>
    find_target_node cfg (nodes st) vm (underloaded_nodes st) = Inr (Some tgt) \<and>
    \<not> fst (migrate_vm a (id_vm vm) (id_node (nodes st ! tgt)) (migration_timeout cfg) (clock st))
    \<longrightarrow>
      fst (balance_step cfg a vms src st) = None \<and>
      migrations_performed (snd (balance_step cfg a vms src st)) = migrations_performed st \<and>
      migration_history (snd (balance_step cfg a vms src st)) = migration_history st \<and>
      nodes (snd (balance_step cfg a vms src st)) = nodes st \<and>
      migrate_calls (snd (balance_step cfg a vms src st))
        = migrate_calls st @ [(id_vm vm, id_node (nodes st ! tgt))]) \<and>
   ms_migration_blacklist (MigrationStrategy_record_migration_failure ms t vid) vid = Some t \<and>
   ms_migration_history (MigrationStrategy_record_migration_failure ms t vid)
     = ms_migration_history ms \<and>
   (now - hours hf \<le> t \<longrightarrow>
      (\<forall>v. MigrationStrategy_select_vm_for_migration hs hf
              (MigrationStrategy_record_migration_failure ms t vid) now vms sn = Some v \<longrightarrow>
           id_vm v \<noteq> vid)) \<and>
   (ms_migration_blacklist ms vid = Some t \<and> now - hours hf \<le> t \<longrightarrow>
      (\<forall>v. MigrationStrategy_select_vm_for_migration hs hf ms now vms sn = Some v \<longrightarrow>
           id_vm v \<noteq> vid))"
proof (intro conjI impI allI)
  assume h: "\<not> dry_run cfg \<and>
    select_vm_for_migration (migration_history st) (clock st) vms (nodes st ! src) = Some vm \<and>
    find_target_node cfg (nodes st) vm (underloaded_nodes st) = Inr (Some tgt) \<and>
    \<not> fst (migrate_vm a (id_vm vm) (id_node (nodes st ! tgt)) (migration_timeout cfg) (clock st))"
  then have s: "balance_step cfg a vms src st =
           (None, st\<lparr>clock := snd (migrate_vm a (id_vm vm) (id_node (nodes st ! tgt))
                                      (migration_timeout cfg) (clock st)),
                      migrate_calls := migrate_calls st @ [(id_vm vm, id_node (nodes st ! tgt))]\<rparr>)"
    by (intro balance_step_failed_migration) simp_all
  show "fst (balance_step cfg a vms src st) = None"
    and "migrations_performed (snd (balance_step cfg a vms src st)) = migrations_performed st"
    and "migration_history (snd (balance_step cfg a vms src st)) = migration_history st"
    and "nodes (snd (balance_step cfg a vms src st)) = nodes st"
    and "migrate_calls (snd (balance_step cfg a vms src st))
        = migrate_calls st @ [(id_vm vm, id_node (nodes st ! tgt))]"
    unfolding s by simp_all
next
  show "ms_migration_blacklist (MigrationStrategy_record_migration_failure ms t vid) vid = Some t"
    by (simp add: MigrationStrategy_record_migration_failure_def)
next
  show "ms_migration_history (MigrationStrategy_record_migration_failure ms t vid)
     = ms_migration_history ms"
    by (simp add: MigrationStrategy_record_migration_failure_def)
next
  fix v
  assume h: "now - hours hf \<le> t"
    and s: "MigrationStrategy_select_vm_for_migration hs hf
              (MigrationStrategy_record_migration_failure ms t vid) now vms sn = Some v"
  from MigrationStrategy_select_vm_for_migration_Some [OF s]
  have "dict_get (ms_migration_blacklist (MigrationStrategy_record_migration_failure ms t vid)
          (id_vm v)) datetime_min < now - hours hf" by simp
  with h show "id_vm v \<noteq> vid"
    by (auto simp add: dict_get_def MigrationStrategy_record_migration_failure_def)
next
  fix v
  assume h: "ms_migration_blacklist ms vid = Some t \<and> now - hours hf \<le> t"
    and s: "MigrationStrategy_select_vm_for_migration hs hf ms now vms sn = Some v"
  from MigrationStrategy_select_vm_for_migration_Some [OF s]
  have "dict_get (ms_migration_blacklist ms (id_vm v)) datetime_min < now - hours hf" by simp
  with h show "id_vm v \<noteq> vid" by (auto simp add: dict_get_def)
qed

lemma s5_after_failure_values:
  "nodes s5_after_failure = [node_A, node_B]"
  "migration_history s5_after_failure ''100'' = None"
  "clock s5_after_failure = 30000000"
  "migrate_calls s5_after_failure = [(''100'', ''2'')]"
  "migrations_performed s5_after_failure = 0"
  unfolding s5_after_failure_def by code_simp+

theorem failed_migration_recorded_witness:
  "\<not> dry_run default_config \<and>
   select_vm_for_migration (migration_history s5_loop_start) (clock s5_loop_start) [vm_x]
     (nodes s5_loop_start ! 0) = Some vm_x \<and>
   find_target_node default_config (nodes s5_loop_start) vm_x (underloaded_nodes s5_loop_start)
     = Inr (Some 1) \<and>
   \<not> fst (migrate_vm api_failing (id_vm vm_x) (id_node (nodes s5_loop_start ! 1))
            (migration_timeout default_config) (clock s5_loop_start)) \<and>
   fst (balance_step default_config api_failing [vm_x] 0 s5_loop_start) = None \<and>
   migrations_performed (snd (balance_step default_config api_failing [vm_x] 0 s5_loop_start)) = 0 \<and>
   migration_history (snd (balance_step default_config api_failing [vm_x] 0 s5_loop_start)) ''100''
     = None \<and>
   migrate_calls (snd (balance_step default_config api_failing [vm_x] 0 s5_loop_start))
     = [(''100'', ''2'')] \<and>
   ms_migration_blacklist (MigrationStrategy_record_migration_failure strategy_empty 0 ''100'') ''100''
     = Some 0 \<and>
   ten_minutes - hours 1 \<le> 0 \<and>
   MigrationStrategy_select_vm_for_migration 1 1
     (MigrationStrategy_record_migration_failure strategy_empty 0 ''100'') ten_minutes [vm_x] node_A
     \<noteq> Some vm_x \<and>
   MigrationStrategy_select_vm_for_migration 1 1
     (MigrationStrategy_record_migration_failure strategy_empty 0 ''100'') (hours 1 + 1) [vm_x] node_A
     = Some vm_x"
proof -
  note inst = failed_migration_recorded
    [where cfg = default_config and st = s5_loop_start and vms = "[vm_x]" and src = 0
       and vm = vm_x and tgt = 1 and a = api_failing and ms = strategy_empty and t = 0
       and vid = "''100''" and now = ten_minutes and hf = 1 and hs = 1 and sn = node_A]
  have h1: "\<not> dry_run default_config" by (simp add: default_config_def)
  have h2: "select_vm_for_migration (migration_history s5_loop_start) (clock s5_loop_start) [vm_x]
     (nodes s5_loop_start ! 0) = Some vm_x"
    by code_simp
  have h3: "find_target_node default_config (nodes s5_loop_start) vm_x
              (underloaded_nodes s5_loop_start) = Inr (Some 1)"
    by code_simp
  have h4: "\<not> fst (migrate_vm api_failing (id_vm vm_x) (id_node (nodes s5_loop_start ! 1))
            (migration_timeout default_config) (clock s5_loop_start))"
    by (simp add: api_failing_def)
  have h5: "ten_minutes - hours 1 \<le> 0" by (simp add: ten_minutes_def hours_def)
  have i: "migrations_performed s5_loop_start = 0" "migration_history s5_loop_start ''100'' = None"
    "migrate_calls s5_loop_start = []" "id_node (nodes s5_loop_start ! 1) = ''2''"
    "id_vm vm_x = ''100''"
    by (simp_all add: s5_loop_start_def s1_state_def initial_state_def node_B_def vm_x_def)
  from inst h1 h2 h3 h4
  have a0: "fst (balance_step default_config api_failing [vm_x] 0 s5_loop_start) = None \<and>
     migrations_performed (snd (balance_step default_config api_failing [vm_x] 0 s5_loop_start))
       = migrations_performed s5_loop_start \<and>
     migration_history (snd (balance_step default_config api_failing [vm_x] 0 s5_loop_start))
       = migration_history s5_loop_start \<and>
     migrate_calls (snd (balance_step default_config api_failing [vm_x] 0 s5_loop_start))
       = migrate_calls s5_loop_start @ [(id_vm vm_x, id_node (nodes s5_loop_start ! 1))]"
    by blast
  have a: "fst (balance_step default_config api_failing [vm_x] 0 s5_loop_start) = None \<and>
     migrations_performed (snd (balance_step default_config api_failing [vm_x] 0 s5_loop_start)) = 0 \<and>
     migration_history (snd (balance_step default_config api_failing [vm_x] 0 s5_loop_start)) ''100''
       = None \<and>
     migrate_calls (snd (balance_step default_config api_failing [vm_x] 0 s5_loop_start))
       = [(''100'', ''2'')]"
    unfolding a0 [THEN conjunct2, THEN conjunct1] a0 [THEN conjunct2, THEN conjunct2, THEN conjunct1]
      a0 [THEN conjunct2, THEN conjunct2, THEN conjunct2] i
    using a0 by simp
  from inst have b: "ms_migration_blacklist
      (MigrationStrategy_record_migration_failure strategy_empty 0 ''100'') ''100'' = Some 0"
    by blast
  from inst h5 have c: "MigrationStrategy_select_vm_for_migration 1 1
     (MigrationStrategy_record_migration_failure strategy_empty 0 ''100'') ten_minutes [vm_x] node_A
     \<noteq> Some vm_x"
    by (auto simp add: i)
  have d: "MigrationStrategy_select_vm_for_migration 1 1
     (MigrationStrategy_record_migration_failure strategy_empty 0 ''100'') (hours 1 + 1) [vm_x] node_A
     = Some vm_x"
    by (simp add: MigrationStrategy_select_vm_for_migration_def
        MigrationStrategy_filter_recently_migrated_vms_def
        MigrationStrategy_filter_blacklisted_vms_def MigrationStrategy_record_migration_failure_def
        strategy_empty_def vm_x_def node_A_def dict_get_def hours_def datetime_min_def)
  from h1 h2 h3 h4 h5 a b c d show ?thesis by blast
qed


text \<open>
  \<^verbatim>\<open>VMBalancer\<close> records no failure: in scenario S1 with a failing API the migration of VM x
  fails 30 seconds into the cycle, nothing but the call is recorded, and the cycle that
  starts ten minutes later selects x again and submits the same migration again.
\<close>

theorem failed_vm_selected_again_counterexample:
  "fst (balance_cluster default_config api_failing s1_state) = Inr 0 \<and>
   migrate_calls s5_after_failure = [(''100'', ''2'')] \<and>
   clock s5_after_failure = 30000000 \<and>
   nodes s5_after_failure = [node_A, node_B] \<and>
   migration_history s5_after_failure ''100'' = None \<and>
   clock s5_next_cycle - clock s5_after_failure < hours 1 \<and>
   select_vm_for_migration (migration_history s5_next_cycle) (clock s5_next_cycle) [vm_x]
     (nodes s5_next_cycle ! 0) = Some vm_x \<and>
   migrate_calls (snd (balance_cluster default_config api_failing s5_next_cycle))
     = [(''100'', ''2''), (''100'', ''2'')]"
proof -
  have a: "fst (balance_cluster default_config api_failing s1_state) = Inr 0"
    by code_simp
  have b: "clock s5_next_cycle - clock s5_after_failure < hours 1"
    by (simp add: s5_next_cycle_def ten_minutes_def hours_def)
  have c: "select_vm_for_migration (migration_history s5_next_cycle) (clock s5_next_cycle) [vm_x]
     (nodes s5_next_cycle ! 0) = Some vm_x"
    unfolding s5_next_cycle_def s5_after_failure_def by code_simp
  have d: "migrate_calls (snd (balance_cluster default_config api_failing s5_next_cycle))
     = [(''100'', ''2''), (''100'', ''2'')]"
    unfolding s5_next_cycle_def s5_after_failure_def by code_simp
  from a b c d s5_after_failure_values show ?thesis by simp
qed

end
